theory Spec2Isabelle
  imports Complex_Main "HOL-Library.Log_Nat" "HOL-Library.AList" "HOL-Library.Multiset"
begin

section \<open>JavaScript values\<close>

text \<open>
  A JavaScript number is an IEEE 754 binary64 value: NaN, \<open>Infinity s\<close> with its sign
  (\<open>True\<close> is negative), or a finite number \<open>Fin s m e\<close> whose value is
  \<open>(- 1) ^ s * m * 2 ^ e\<close>.  The mantissa of a finite number satisfies \<open>m < 2 ^ 53\<close>,
  its exponent \<open>- 1074 \<le> e \<le> 971\<close>, and \<open>2 ^ 52 \<le> m\<close> unless \<open>e = - 1074\<close>; the two
  zeros are \<open>Fin False 0 0\<close> and \<open>Fin True 0 0\<close>.
\<close>

datatype jsnum = NaN | Infinity bool | Fin bool int int

text \<open>
  Exact arithmetic is done on fractions of integers; a fraction \<open>(p, q)\<close> stands for
  \<open>p / q\<close> with \<open>0 \<le> p\<close> and \<open>0 < q\<close>.
\<close>

type_synonym frac = "int \<times> int"

definition frac_le :: "frac \<Rightarrow> frac \<Rightarrow> bool" where
  "frac_le a b = (fst a * snd b \<le> fst b * snd a)"

definition frac_mul :: "frac \<Rightarrow> frac \<Rightarrow> frac" where
  "frac_mul a b = (fst a * fst b, snd a * snd b)"

definition frac_div :: "frac \<Rightarrow> frac \<Rightarrow> frac" where
  "frac_div a b = (fst a * snd b, snd a * fst b)"

definition frac_pow :: "int \<Rightarrow> int \<Rightarrow> frac" where
  "frac_pow b k = (if 0 \<le> k then (b ^ nat k, 1) else (1, b ^ nat (- k)))"

text \<open>
  Rounding to the nearest double, ties to even (the only rounding mode of ECMAScript).
  \<open>ilog2 v\<close> is the binary exponent of \<open>v\<close>, \<open>round_at v t\<close> rounds \<open>v\<close> to a multiple
  of \<open>2 ^ t\<close>, and \<open>round_pos\<close> picks \<open>t\<close> so that the mantissa has 53 bits, or fewer
  in the subnormal range.  \<open>None\<close> is overflow.
\<close>

definition round_half_even :: "frac \<Rightarrow> int" where
  "round_half_even u =
     (if 2 * (fst u mod snd u) < snd u then fst u div snd u
      else if snd u < 2 * (fst u mod snd u) then fst u div snd u + 1
      else if even (fst u div snd u) then fst u div snd u
      else fst u div snd u + 1)"

definition ilog2 :: "frac \<Rightarrow> int" where
  "ilog2 v =
     (if frac_le (frac_pow 2 (bitlen (fst v) - bitlen (snd v))) v
      then bitlen (fst v) - bitlen (snd v)
      else bitlen (fst v) - bitlen (snd v) - 1)"

definition renormalize :: "int \<Rightarrow> int \<Rightarrow> (int \<times> int) option" where
  "renormalize m t =
     (if m = 2 ^ 53 then (if 971 < t + 1 then None else Some (2 ^ 52, t + 1))
      else (if 971 < t then None else Some (m, t)))"

definition round_at :: "frac \<Rightarrow> int \<Rightarrow> (int \<times> int) option" where
  "round_at v t = renormalize (round_half_even (frac_div v (frac_pow 2 t))) t"

definition round_pos :: "frac \<Rightarrow> (int \<times> int) option" where
  "round_pos v = round_at v (max (ilog2 v - 52) (- 1074))"

fun make_fin :: "bool \<Rightarrow> (int \<times> int) option \<Rightarrow> jsnum" where
  "make_fin s None = Infinity s"
| "make_fin s (Some (m, e)) = (if m = 0 then Fin s 0 0 else Fin s m e)"

definition fl :: "bool \<Rightarrow> frac \<Rightarrow> jsnum" where
  "fl s v = (if fst v = 0 then Fin s 0 0 else make_fin s (round_pos v))"

definition to_frac :: "int \<Rightarrow> int \<Rightarrow> frac" where
  "to_frac m e = frac_mul (m, 1) (frac_pow 2 e)"

definition with_sign :: "bool \<Rightarrow> int \<Rightarrow> int" where
  "with_sign s m = (if s then - m else m)"

definition aligned :: "bool \<Rightarrow> int \<Rightarrow> int \<Rightarrow> int \<Rightarrow> int" where
  "aligned s m e e0 = with_sign s (m * 2 ^ nat (e - e0))"

definition fl_int :: "int \<Rightarrow> int \<Rightarrow> jsnum" where
  "fl_int M e = fl (M < 0) (to_frac \<bar>M\<bar> e)"

text \<open>The operators \<^verbatim>\<open>+\<close>, \<^verbatim>\<open>-\<close>, \<^verbatim>\<open>*\<close>, \<^verbatim>\<open>/\<close>, \<^verbatim>\<open><\<close> and \<^verbatim>\<open>>\<close> on numbers.\<close>

fun neg :: "jsnum \<Rightarrow> jsnum" where
  "neg NaN = NaN"
| "neg (Infinity s) = Infinity (\<not> s)"
| "neg (Fin s m e) = Fin (\<not> s) m e"

fun add :: "jsnum \<Rightarrow> jsnum \<Rightarrow> jsnum" where
  "add NaN y = NaN"
| "add x NaN = NaN"
| "add (Infinity s) (Infinity s') = (if s = s' then Infinity s else NaN)"
| "add (Infinity s) (Fin s' m e) = Infinity s"
| "add (Fin s m e) (Infinity s') = Infinity s'"
| "add (Fin s1 m1 e1) (Fin s2 m2 e2) =
     (if aligned s1 m1 e1 (min e1 e2) + aligned s2 m2 e2 (min e1 e2) = 0 then Fin (s1 \<and> s2) 0 0
      else fl_int (aligned s1 m1 e1 (min e1 e2) + aligned s2 m2 e2 (min e1 e2)) (min e1 e2))"

definition sub :: "jsnum \<Rightarrow> jsnum \<Rightarrow> jsnum" where
  "sub x y = add x (neg y)"

fun mul :: "jsnum \<Rightarrow> jsnum \<Rightarrow> jsnum" where
  "mul NaN y = NaN"
| "mul x NaN = NaN"
| "mul (Infinity s) (Infinity s') = Infinity (s \<noteq> s')"
| "mul (Infinity s) (Fin s' m e) = (if m = 0 then NaN else Infinity (s \<noteq> s'))"
| "mul (Fin s m e) (Infinity s') = (if m = 0 then NaN else Infinity (s \<noteq> s'))"
| "mul (Fin s1 m1 e1) (Fin s2 m2 e2) = fl (s1 \<noteq> s2) (to_frac (m1 * m2) (e1 + e2))"

fun divide_num :: "jsnum \<Rightarrow> jsnum \<Rightarrow> jsnum" where
  "divide_num NaN y = NaN"
| "divide_num x NaN = NaN"
| "divide_num (Infinity s) (Infinity s') = NaN"
| "divide_num (Infinity s) (Fin s' m e) = Infinity (s \<noteq> s')"
| "divide_num (Fin s m e) (Infinity s') = Fin (s \<noteq> s') 0 0"
| "divide_num (Fin s1 m1 e1) (Fin s2 m2 e2) =
     (if m2 = 0 then (if m1 = 0 then NaN else Infinity (s1 \<noteq> s2))
      else fl (s1 \<noteq> s2) (frac_div (to_frac m1 e1) (to_frac m2 e2)))"

fun lt :: "jsnum \<Rightarrow> jsnum \<Rightarrow> bool" where
  "lt NaN y = False"
| "lt x NaN = False"
| "lt (Infinity s) (Infinity s') = (s \<and> \<not> s')"
| "lt (Infinity s) (Fin s' m e) = s"
| "lt (Fin s m e) (Infinity s') = (\<not> s')"
| "lt (Fin s1 m1 e1) (Fin s2 m2 e2) =
     (aligned s1 m1 e1 (min e1 e2) < aligned s2 m2 e2 (min e1 e2))"

definition gt :: "jsnum \<Rightarrow> jsnum \<Rightarrow> bool" where
  "gt x y = lt y x"

text \<open>
  Strings are sequences of bytes (UTF-8).  \<^verbatim>\<open>parseFloat\<close> skips leading white space
  and converts the longest prefix that is a decimal literal; the value of the literal is
  rounded to the nearest double.
\<close>

definition is_digit :: "char \<Rightarrow> bool" where
  "is_digit c = (c \<in> set ''0123456789'')"

definition digit_val :: "char \<Rightarrow> int" where
  "digit_val c = int (length (takeWhile (\<lambda>d. d \<noteq> c) ''0123456789''))"

definition digits_val :: "string \<Rightarrow> int" where
  "digits_val ds = foldl (\<lambda>a c. 10 * a + digit_val c) 0 ds"

function digits :: "int \<Rightarrow> string" where
  "digits n = (if n < 10 then [''0123456789'' ! nat n]
               else digits (n div 10) @ [''0123456789'' ! nat (n mod 10)])"
  by pat_completeness auto
termination
  by (relation "measure nat") auto

definition WhiteSpace :: "nat list list" where
  "WhiteSpace =
     [[0x09], [0x0A], [0x0B], [0x0C], [0x0D], [0x20], [0xC2, 0xA0], [0xE1, 0x9A, 0x80],
      [0xE2, 0x80, 0x80], [0xE2, 0x80, 0x81], [0xE2, 0x80, 0x82], [0xE2, 0x80, 0x83],
      [0xE2, 0x80, 0x84], [0xE2, 0x80, 0x85], [0xE2, 0x80, 0x86], [0xE2, 0x80, 0x87],
      [0xE2, 0x80, 0x88], [0xE2, 0x80, 0x89], [0xE2, 0x80, 0x8A], [0xE2, 0x80, 0xA8],
      [0xE2, 0x80, 0xA9], [0xE2, 0x80, 0xAF], [0xE2, 0x81, 0x9F], [0xE3, 0x80, 0x80],
      [0xEF, 0xBB, 0xBF]]"

definition ws_len :: "string \<Rightarrow> nat" where
  "ws_len s = (case find (\<lambda>w. take (length w) (map of_char s) = w) WhiteSpace of
                 None \<Rightarrow> 0 | Some w \<Rightarrow> length w)"

function trimStart :: "string \<Rightarrow> string" where
  "trimStart s = (if ws_len s = 0 \<or> length s < ws_len s then s else trimStart (drop (ws_len s) s))"
  by pat_completeness auto
termination
  by (relation "measure length") auto

definition ExponentPart :: "string \<Rightarrow> int" where
  "ExponentPart r =
     (if take 1 r = ''e'' \<or> take 1 r = ''E'' then
        (if take 1 (drop 1 r) = ''-'' then - digits_val (takeWhile is_digit (drop 2 r))
         else if take 1 (drop 1 r) = ''+'' then digits_val (takeWhile is_digit (drop 2 r))
         else digits_val (takeWhile is_digit (drop 1 r)))
      else 0)"

definition StrDecimalValue :: "bool \<Rightarrow> string \<Rightarrow> string \<Rightarrow> string \<Rightarrow> jsnum" where
  "StrDecimalValue s ip fp r =
     (if ip = [] \<and> fp = [] then NaN
      else fl s (frac_mul (digits_val (ip @ fp), 1)
                   (frac_pow 10 (ExponentPart r - int (length fp)))))"

definition StrDecimalDigits :: "bool \<Rightarrow> string \<Rightarrow> string \<Rightarrow> jsnum" where
  "StrDecimalDigits s ip r =
     (if take 1 r = ''.''
      then StrDecimalValue s ip (takeWhile is_digit (drop 1 r)) (dropWhile is_digit (drop 1 r))
      else StrDecimalValue s ip [] r)"

definition StrUnsignedDecimalLiteral :: "bool \<Rightarrow> string \<Rightarrow> jsnum" where
  "StrUnsignedDecimalLiteral s r =
     (if take 8 r = ''Infinity'' then Infinity s
      else StrDecimalDigits s (takeWhile is_digit r) (dropWhile is_digit r))"

definition StrDecimalLiteral :: "string \<Rightarrow> jsnum" where
  "StrDecimalLiteral t =
     (if take 1 t = ''-'' then StrUnsignedDecimalLiteral True (drop 1 t)
      else if take 1 t = ''+'' then StrUnsignedDecimalLiteral False (drop 1 t)
      else StrUnsignedDecimalLiteral False t)"

definition parseFloat :: "string \<Rightarrow> jsnum" where
  "parseFloat inputString = StrDecimalLiteral (trimStart inputString)"

text \<open>
  \<^verbatim>\<open>Number.prototype.toString\<close>: the shortest sequence of \<open>k\<close> digits \<open>s\<close> with
  \<open>s * 10 ^ (n - k)\<close> rounding to the number, the closest such \<open>s\<close> when several exist,
  laid out in positional or exponent notation.
\<close>

definition ilog10_near :: "frac \<Rightarrow> int \<Rightarrow> int" where
  "ilog10_near v e =
     (if frac_le (frac_pow 10 (e + 2)) v then e + 2
      else if frac_le (frac_pow 10 (e + 1)) v then e + 1
      else if frac_le (frac_pow 10 e) v then e
      else e - 1)"

definition ilog10 :: "frac \<Rightarrow> int" where
  "ilog10 v = ilog10_near v ((ilog2 v * 1233) div 4096)"

definition round_trips :: "int \<Rightarrow> int \<Rightarrow> int \<Rightarrow> int \<Rightarrow> int \<Rightarrow> bool" where
  "round_trips m e n k s = (fl False (frac_mul (s, 1) (frac_pow 10 (n - k))) = Fin False m e)"

definition pick_digits :: "int \<Rightarrow> int \<Rightarrow> frac \<Rightarrow> bool \<Rightarrow> bool \<Rightarrow> (int \<times> int) option" where
  "pick_digits n k d ok_lo ok_hi =
     (if ok_lo \<and> (\<not> ok_hi \<or> 2 * (fst d mod snd d) < snd d
                  \<or> (2 * (fst d mod snd d) = snd d \<and> even (fst d div snd d)))
      then Some (fst d div snd d, n)
      else if ok_hi
      then (if fst d div snd d + 1 = 10 ^ nat k then Some (10 ^ nat (k - 1), n + 1)
            else Some (fst d div snd d + 1, n))
      else None)"

definition scaled :: "int \<Rightarrow> int \<Rightarrow> int \<Rightarrow> int \<Rightarrow> frac" where
  "scaled m e n k = frac_div (to_frac m e) (frac_pow 10 (n - k))"

definition candidate :: "int \<Rightarrow> int \<Rightarrow> int \<Rightarrow> int \<Rightarrow> (int \<times> int) option" where
  "candidate m e n k =
     pick_digits n k (scaled m e n k)
       (round_trips m e n k (fst (scaled m e n k) div snd (scaled m e n k)))
       (round_trips m e n k (fst (scaled m e n k) div snd (scaled m e n k) + 1))"

function shortest :: "int \<Rightarrow> int \<Rightarrow> int \<Rightarrow> int \<Rightarrow> (int \<times> int) \<times> int" where
  "shortest m e n k =
     (if candidate m e n k \<noteq> None \<or> 17 \<le> k
      then (case candidate m e n k of
              Some sn \<Rightarrow> (sn, k)
            | None \<Rightarrow> ((fst (scaled m e n k) div snd (scaled m e n k), n), k))
      else shortest m e n (k + 1))"
  by pat_completeness auto
termination
  by (relation "measure (\<lambda>(m, e, n, k). nat (17 - k))") auto

definition format_digits :: "string \<Rightarrow> int \<Rightarrow> int \<Rightarrow> string" where
  "format_digits ds n k =
     (if k \<le> n \<and> n \<le> 21 then ds @ replicate (nat (n - k)) (CHR ''0'')
      else if 0 < n \<and> n \<le> 21 then take (nat n) ds @ ''.'' @ drop (nat n) ds
      else if - 6 < n \<and> n \<le> 0 then ''0.'' @ replicate (nat (- n)) (CHR ''0'') @ ds
      else (if k = 1 then ds else take 1 ds @ ''.'' @ drop 1 ds) @ ''e''
           @ (if n - 1 < 0 then ''-'' else ''+'') @ digits \<bar>n - 1\<bar>)"

definition format_shortest :: "(int \<times> int) \<times> int \<Rightarrow> string" where
  "format_shortest snk = format_digits (digits (fst (fst snk))) (snd (fst snk)) (snd snk)"

fun toString :: "jsnum \<Rightarrow> string" where
  "toString NaN = ''NaN''"
| "toString (Infinity s) = (if s then ''-Infinity'' else ''Infinity'')"
| "toString (Fin s m e) =
     (if m = 0 then ''0''
      else (if s then ''-'' else [])
           @ format_shortest (shortest m e (ilog10 (to_frac m e) + 1) 1))"

text \<open>
  \<^verbatim>\<open>Number.prototype.toFixed\<close>: the decimal expansion to \<open>f\<close> fraction digits of the
  exact value, a tie going to the larger digit string.
\<close>

definition round_half_up :: "frac \<Rightarrow> int" where
  "round_half_up w = (2 * fst w + snd w) div (2 * snd w)"

definition pad_zeros :: "nat \<Rightarrow> string \<Rightarrow> string" where
  "pad_zeros k ds = replicate (k - length ds) (CHR ''0'') @ ds"

definition insert_point :: "nat \<Rightarrow> string \<Rightarrow> string" where
  "insert_point f ds =
     (if f = 0 then ds else take (length ds - f) ds @ ''.'' @ drop (length ds - f) ds)"

fun toFixed :: "nat \<Rightarrow> jsnum \<Rightarrow> string" where
  "toFixed f NaN = ''NaN''"
| "toFixed f (Infinity s) = (if s then ''-Infinity'' else ''Infinity'')"
| "toFixed f (Fin s m e) =
     (if frac_le (10 ^ 21, 1) (to_frac m e) then toString (Fin s m e)
      else (if s \<and> m \<noteq> 0 then ''-'' else [])
           @ insert_point f
               (pad_zeros (f + 1)
                  (digits (round_half_up (frac_mul (to_frac m e) (10 ^ f, 1))))))"

definition of_int_num :: "int \<Rightarrow> jsnum" where
  "of_int_num z = fl_int z 0"

declare digits.simps [simp del]
declare trimStart.simps [simp del]
declare shortest.simps [simp del]

text \<open>
  Values as \<^verbatim>\<open>JSON.parse\<close> and property access produce them.  An object is its list
  of own properties.
\<close>

datatype jsval =
    Undefined
  | Null
  | Bool bool
  | Num jsnum
  | Str string
  | Arr "jsval list"
  | Obj "(string \<times> jsval) list"

section \<open>The schema (shared/schema.ts)\<close>

text \<open>
  Column types: \<^verbatim>\<open>text\<close>, \<^verbatim>\<open>varchar\<close> and \<^verbatim>\<open>decimal\<close> columns are strings,
  \<^verbatim>\<open>integer\<close> columns are integers, \<^verbatim>\<open>timestamp\<close> columns are milliseconds since
  the epoch, \<^verbatim>\<open>jsonb\<close> columns are arbitrary values.  A column without
  \<^verbatim>\<open>notNull()\<close> may hold \<^verbatim>\<open>null\<close>, written \<open>None\<close>.  Field names carry the
  record's initials because the records share column names.
\<close>

record User =
  u_id :: string
  u_username :: string
  u_email :: string
  u_password :: string
  u_walletAddress :: "string option"
  u_role :: string
  u_level :: int
  u_xp :: int
  u_bdagBalance :: string
  u_portfolioValue :: string
  u_globalRank :: "int option"
  u_weeklyXp :: int
  u_streakDays :: int
  u_lastActive :: "nat option"
  u_createdAt :: "nat option"

record PredictionMarket =
  m_id :: string
  m_title :: string
  m_description :: string
  m_category :: string
  m_endDate :: nat
  m_totalPool :: string
  m_participantCount :: int
  m_yesPercentage :: string
  m_noPercentage :: string
  m_status :: string
  m_result :: "bool option"
  m_createdAt :: "nat option"

record Prediction =
  p_id :: string
  p_userId :: string
  p_marketId :: string
  p_prediction :: bool
  p_amount :: string
  p_potentialWin :: string
  p_status :: string
  p_createdAt :: "nat option"

record Task =
  t_id :: string
  t_title :: string
  t_description :: string
  t_category :: string
  t_difficulty :: string
  t_xpReward :: int
  t_bdagReward :: string
  t_requirements :: jsval
  t_isDaily :: bool
  t_isWeekly :: bool
  t_maxCompletions :: "int option"
  t_currentCompletions :: int
  t_isActive :: bool
  t_createdAt :: "nat option"

record UserTask =
  ut_id :: string
  ut_userId :: string
  ut_taskId :: string
  ut_status :: string
  ut_progress :: int
  ut_maxProgress :: int
  ut_completedAt :: "nat option"
  ut_createdAt :: "nat option"

record Achievement =
  a_id :: string
  a_name :: string
  a_description :: string
  a_icon :: string
  a_category :: string
  a_requirement :: jsval
  a_xpReward :: int
  a_bdagReward :: string
  a_isActive :: bool
  a_createdAt :: "nat option"

record UserAchievement =
  ua_id :: string
  ua_userId :: string
  ua_achievementId :: string
  ua_progress :: int
  ua_maxProgress :: int
  ua_isCompleted :: bool
  ua_completedAt :: "nat option"
  ua_createdAt :: "nat option"

record Reward =
  r_id :: string
  r_userId :: string
  r_type :: string
  r_source :: string
  r_xpAmount :: int
  r_bdagAmount :: string
  r_description :: string
  r_createdAt :: "nat option"

text \<open>
  \<^verbatim>\<open>Partial<T>\<close>: every property of \<open>T\<close>, each one optional.  \<open>None\<close> is a
  property the object does not have, \<open>Some v\<close> one it has with value \<open>v\<close>.
\<close>

record Partial_User =
  pu_id :: "string option"
  pu_username :: "string option"
  pu_email :: "string option"
  pu_password :: "string option"
  pu_walletAddress :: "string option option"
  pu_role :: "string option"
  pu_level :: "int option"
  pu_xp :: "int option"
  pu_bdagBalance :: "string option"
  pu_portfolioValue :: "string option"
  pu_globalRank :: "int option option"
  pu_weeklyXp :: "int option"
  pu_streakDays :: "int option"
  pu_lastActive :: "nat option option"
  pu_createdAt :: "nat option option"

record Partial_PredictionMarket =
  pm_id :: "string option"
  pm_title :: "string option"
  pm_description :: "string option"
  pm_category :: "string option"
  pm_endDate :: "nat option"
  pm_totalPool :: "string option"
  pm_participantCount :: "int option"
  pm_yesPercentage :: "string option"
  pm_noPercentage :: "string option"
  pm_status :: "string option"
  pm_result :: "bool option option"
  pm_createdAt :: "nat option option"

record Partial_Task =
  pt_id :: "string option"
  pt_title :: "string option"
  pt_description :: "string option"
  pt_category :: "string option"
  pt_difficulty :: "string option"
  pt_xpReward :: "int option"
  pt_bdagReward :: "string option"
  pt_requirements :: "jsval option"
  pt_isDaily :: "bool option"
  pt_isWeekly :: "bool option"
  pt_maxCompletions :: "int option option"
  pt_currentCompletions :: "int option"
  pt_isActive :: "bool option"
  pt_createdAt :: "nat option option"

record Partial_UserTask =
  put_id :: "string option"
  put_userId :: "string option"
  put_taskId :: "string option"
  put_status :: "string option"
  put_progress :: "int option"
  put_maxProgress :: "int option"
  put_completedAt :: "nat option option"
  put_createdAt :: "nat option option"

record Partial_UserAchievement =
  pua_id :: "string option"
  pua_userId :: "string option"
  pua_achievementId :: "string option"
  pua_progress :: "int option"
  pua_maxProgress :: "int option"
  pua_isCompleted :: "bool option"
  pua_completedAt :: "nat option option"
  pua_createdAt :: "nat option option"

section \<open>The in-memory store (server/storage.ts)\<close>

text \<open>
  A JavaScript \<^verbatim>\<open>Map\<close> iterates in insertion order and \<^verbatim>\<open>set\<close> on a key that is
  present keeps the key's position, so a \<^verbatim>\<open>Map\<close> is an association list whose keys are
  distinct.
\<close>

type_synonym ('k, 'v) Map = "('k \<times> 'v) list"

definition Map_get :: "('k, 'v) Map \<Rightarrow> 'k \<Rightarrow> 'v option" where
  "Map_get m k = map_of m k"

definition Map_set :: "('k, 'v) Map \<Rightarrow> 'k \<Rightarrow> 'v \<Rightarrow> ('k, 'v) Map" where
  "Map_set m k v = AList.update k v m"

definition Map_delete :: "('k, 'v) Map \<Rightarrow> 'k \<Rightarrow> ('k, 'v) Map" where
  "Map_delete m k = AList.delete k m"

definition Map_keys :: "('k, 'v) Map \<Rightarrow> 'k list" where
  "Map_keys m = map fst m"

definition Map_values :: "('k, 'v) Map \<Rightarrow> 'v list" where
  "Map_values m = map snd m"

record MemStorage =
  users :: "(string, User) Map"
  predictionMarkets :: "(string, PredictionMarket) Map"
  predictions :: "(string, Prediction) Map"
  tasks :: "(string, Task) Map"
  userTasks :: "(string, UserTask) Map"
  achievements :: "(string, Achievement) Map"
  userAchievements :: "(string, UserAchievement) Map"
  rewards :: "(string, Reward) Map"

text \<open>
  The constructor's sample data (\<^verbatim>\<open>initializeData\<close>); \<open>now\<close> is the time of
  construction.
\<close>

definition initializeData :: "nat \<Rightarrow> MemStorage" where
  "initializeData now =
     \<lparr> users =
         [(''user-1'',
           \<lparr> u_id = ''user-1'', u_username = ''CryptoDev_42'',
             u_email = ''cryptodev@example.com'', u_password = ''hashed_password'',
             u_walletAddress = Some ''0x742d...7A2F'', u_role = ''validator'', u_level = 10,
             u_xp = 9847, u_bdagBalance = ''25847'', u_portfolioValue = ''12847.52'',
             u_globalRank = Some 127, u_weeklyXp = 1247, u_streakDays = 7,
             u_lastActive = Some now, u_createdAt = Some now \<rparr>)],
       predictionMarkets =
         [(''market-1'',
           \<lparr> m_id = ''market-1'', m_title = ''Network Hash Rate > 50 TH/s by Dec 2024?'',
             m_description =
               ''Will the BlockDAG network hash rate exceed 50 TH/s by December 2024?'',
             m_category = ''network'', m_endDate = 1735603200000, m_totalPool = ''12500'',
             m_participantCount = 1247, m_yesPercentage = ''67.00'', m_noPercentage = ''33.00'',
             m_status = ''active'', m_result = None, m_createdAt = Some now \<rparr>)],
       predictions = [],
       tasks =
         [(''task-1'',
           \<lparr> t_id = ''task-1'', t_title = ''Deploy Smart Contract on Testnet'',
             t_description = ''Deploy and verify a smart contract on the BlockDAG testnet'',
             t_category = ''development'', t_difficulty = ''hard'', t_xpReward = 300,
             t_bdagReward = ''100'',
             t_requirements =
               Arr [Str ''Connect wallet'', Str ''Deploy contract'', Str ''Verify deployment''],
             t_isDaily = False, t_isWeekly = False, t_maxCompletions = None,
             t_currentCompletions = 47, t_isActive = True, t_createdAt = Some now \<rparr>)],
       userTasks = [],
       achievements =
         [(''achievement-1'',
           \<lparr> a_id = ''achievement-1'', a_name = ''Network Expert'',
             a_description = ''Deploy 5 smart contracts successfully'', a_icon = ''fas fa-code'',
             a_category = ''development'',
             a_requirement = Obj [(''deployments'', Num (of_int_num 5))], a_xpReward = 500,
             a_bdagReward = ''200'', a_isActive = True, a_createdAt = Some now \<rparr>)],
       userAchievements = [],
       rewards = [] \<rparr>"

text \<open>
  The object spread \<^verbatim>\<open>{ ...record, ...updates }\<close>: a property of \<^verbatim>\<open>updates\<close> wins,
  any other property keeps the record's value.
\<close>

fun spread :: "'a \<Rightarrow> 'a option \<Rightarrow> 'a" where
  "spread old None = old"
| "spread old (Some v) = v"

definition spread_User :: "User \<Rightarrow> Partial_User \<Rightarrow> User" where
  "spread_User u p =
     \<lparr> u_id = spread (u_id u) (pu_id p),
       u_username = spread (u_username u) (pu_username p),
       u_email = spread (u_email u) (pu_email p),
       u_password = spread (u_password u) (pu_password p),
       u_walletAddress = spread (u_walletAddress u) (pu_walletAddress p),
       u_role = spread (u_role u) (pu_role p),
       u_level = spread (u_level u) (pu_level p),
       u_xp = spread (u_xp u) (pu_xp p),
       u_bdagBalance = spread (u_bdagBalance u) (pu_bdagBalance p),
       u_portfolioValue = spread (u_portfolioValue u) (pu_portfolioValue p),
       u_globalRank = spread (u_globalRank u) (pu_globalRank p),
       u_weeklyXp = spread (u_weeklyXp u) (pu_weeklyXp p),
       u_streakDays = spread (u_streakDays u) (pu_streakDays p),
       u_lastActive = spread (u_lastActive u) (pu_lastActive p),
       u_createdAt = spread (u_createdAt u) (pu_createdAt p) \<rparr>"

definition spread_PredictionMarket ::
  "PredictionMarket \<Rightarrow> Partial_PredictionMarket \<Rightarrow> PredictionMarket" where
  "spread_PredictionMarket m p =
     \<lparr> m_id = spread (m_id m) (pm_id p),
       m_title = spread (m_title m) (pm_title p),
       m_description = spread (m_description m) (pm_description p),
       m_category = spread (m_category m) (pm_category p),
       m_endDate = spread (m_endDate m) (pm_endDate p),
       m_totalPool = spread (m_totalPool m) (pm_totalPool p),
       m_participantCount = spread (m_participantCount m) (pm_participantCount p),
       m_yesPercentage = spread (m_yesPercentage m) (pm_yesPercentage p),
       m_noPercentage = spread (m_noPercentage m) (pm_noPercentage p),
       m_status = spread (m_status m) (pm_status p),
       m_result = spread (m_result m) (pm_result p),
       m_createdAt = spread (m_createdAt m) (pm_createdAt p) \<rparr>"

definition spread_Task :: "Task \<Rightarrow> Partial_Task \<Rightarrow> Task" where
  "spread_Task t p =
     \<lparr> t_id = spread (t_id t) (pt_id p),
       t_title = spread (t_title t) (pt_title p),
       t_description = spread (t_description t) (pt_description p),
       t_category = spread (t_category t) (pt_category p),
       t_difficulty = spread (t_difficulty t) (pt_difficulty p),
       t_xpReward = spread (t_xpReward t) (pt_xpReward p),
       t_bdagReward = spread (t_bdagReward t) (pt_bdagReward p),
       t_requirements = spread (t_requirements t) (pt_requirements p),
       t_isDaily = spread (t_isDaily t) (pt_isDaily p),
       t_isWeekly = spread (t_isWeekly t) (pt_isWeekly p),
       t_maxCompletions = spread (t_maxCompletions t) (pt_maxCompletions p),
       t_currentCompletions = spread (t_currentCompletions t) (pt_currentCompletions p),
       t_isActive = spread (t_isActive t) (pt_isActive p),
       t_createdAt = spread (t_createdAt t) (pt_createdAt p) \<rparr>"

definition spread_UserTask :: "UserTask \<Rightarrow> Partial_UserTask \<Rightarrow> UserTask" where
  "spread_UserTask t p =
     \<lparr> ut_id = spread (ut_id t) (put_id p),
       ut_userId = spread (ut_userId t) (put_userId p),
       ut_taskId = spread (ut_taskId t) (put_taskId p),
       ut_status = spread (ut_status t) (put_status p),
       ut_progress = spread (ut_progress t) (put_progress p),
       ut_maxProgress = spread (ut_maxProgress t) (put_maxProgress p),
       ut_completedAt = spread (ut_completedAt t) (put_completedAt p),
       ut_createdAt = spread (ut_createdAt t) (put_createdAt p) \<rparr>"

definition spread_UserAchievement ::
  "UserAchievement \<Rightarrow> Partial_UserAchievement \<Rightarrow> UserAchievement" where
  "spread_UserAchievement a p =
     \<lparr> ua_id = spread (ua_id a) (pua_id p),
       ua_userId = spread (ua_userId a) (pua_userId p),
       ua_achievementId = spread (ua_achievementId a) (pua_achievementId p),
       ua_progress = spread (ua_progress a) (pua_progress p),
       ua_maxProgress = spread (ua_maxProgress a) (pua_maxProgress p),
       ua_isCompleted = spread (ua_isCompleted a) (pua_isCompleted p),
       ua_completedAt = spread (ua_completedAt a) (pua_completedAt p),
       ua_createdAt = spread (ua_createdAt a) (pua_createdAt p) \<rparr>"

text \<open>
  The update operations.  A \<^verbatim>\<open>throw new Error(msg)\<close> is the result \<open>Inl msg\<close>; the
  store after the call is the second component in either case.
\<close>

definition updateUser ::
  "string \<Rightarrow> Partial_User \<Rightarrow> MemStorage \<Rightarrow> (string + User) \<times> MemStorage" where
  "updateUser ident updates s =
     (case Map_get (users s) ident of
        None \<Rightarrow> (Inl ''User not found'', s)
      | Some user \<Rightarrow>
          (let updatedUser = spread_User user updates
           in (Inr updatedUser, s\<lparr>users := Map_set (users s) ident updatedUser\<rparr>)))"

definition updatePredictionMarket ::
  "string \<Rightarrow> Partial_PredictionMarket \<Rightarrow> MemStorage
     \<Rightarrow> (string + PredictionMarket) \<times> MemStorage" where
  "updatePredictionMarket ident updates s =
     (case Map_get (predictionMarkets s) ident of
        None \<Rightarrow> (Inl ''Market not found'', s)
      | Some market \<Rightarrow>
          (let updatedMarket = spread_PredictionMarket market updates
           in (Inr updatedMarket,
               s\<lparr>predictionMarkets := Map_set (predictionMarkets s) ident updatedMarket\<rparr>)))"

definition updateTask ::
  "string \<Rightarrow> Partial_Task \<Rightarrow> MemStorage \<Rightarrow> (string + Task) \<times> MemStorage" where
  "updateTask ident updates s =
     (case Map_get (tasks s) ident of
        None \<Rightarrow> (Inl ''Task not found'', s)
      | Some task \<Rightarrow>
          (let updatedTask = spread_Task task updates
           in (Inr updatedTask, s\<lparr>tasks := Map_set (tasks s) ident updatedTask\<rparr>)))"

definition updateUserTask ::
  "string \<Rightarrow> Partial_UserTask \<Rightarrow> MemStorage \<Rightarrow> (string + UserTask) \<times> MemStorage" where
  "updateUserTask ident updates s =
     (case Map_get (userTasks s) ident of
        None \<Rightarrow> (Inl ''User task not found'', s)
      | Some userTask \<Rightarrow>
          (let updatedUserTask = spread_UserTask userTask updates
           in (Inr updatedUserTask,
               s\<lparr>userTasks := Map_set (userTasks s) ident updatedUserTask\<rparr>)))"

definition updateUserAchievement ::
  "string \<Rightarrow> Partial_UserAchievement \<Rightarrow> MemStorage
     \<Rightarrow> (string + UserAchievement) \<times> MemStorage" where
  "updateUserAchievement ident updates s =
     (case Map_get (userAchievements s) ident of
        None \<Rightarrow> (Inl ''User achievement not found'', s)
      | Some userAchievement \<Rightarrow>
          (let updatedUserAchievement = spread_UserAchievement userAchievement updates
           in (Inr updatedUserAchievement,
               s\<lparr>userAchievements :=
                   Map_set (userAchievements s) ident updatedUserAchievement\<rparr>)))"

text \<open>
  The insert types.  \<^verbatim>\<open>drizzle-zod\<close> makes a column with a default optional; the
  records below are insert values that carry every column.
\<close>

record InsertPredictionMarket =
  im_title :: string
  im_description :: string
  im_category :: string
  im_endDate :: nat
  im_status :: string
  im_result :: "bool option"

record InsertPrediction =
  ip_userId :: string
  ip_marketId :: string
  ip_prediction :: bool
  ip_amount :: string
  ip_potentialWin :: string

record InsertTask =
  it_title :: string
  it_description :: string
  it_category :: string
  it_difficulty :: string
  it_xpReward :: int
  it_bdagReward :: string
  it_requirements :: jsval
  it_isDaily :: bool
  it_isWeekly :: bool
  it_maxCompletions :: "int option"
  it_isActive :: bool

record InsertUserTask =
  iut_userId :: string
  iut_taskId :: string
  iut_status :: string
  iut_progress :: int
  iut_maxProgress :: int


text \<open>
  \<^verbatim>\<open>Array.prototype.sort\<close> with a comparator is stable: an element goes in front of
  the first element of the sorted rest that the comparator does not put before it.
  \<^verbatim>\<open>slice(0, end)\<close> counts a negative \<open>end\<close> from the end of the array.
\<close>

fun insert_by :: "('a \<Rightarrow> 'a \<Rightarrow> int) \<Rightarrow> 'a \<Rightarrow> 'a list \<Rightarrow> 'a list" where
  "insert_by cmp x [] = [x]"
| "insert_by cmp x (y # ys) = (if cmp x y \<le> 0 then x # y # ys else y # insert_by cmp x ys)"

definition Array_sort :: "('a \<Rightarrow> 'a \<Rightarrow> int) \<Rightarrow> 'a list \<Rightarrow> 'a list" where
  "Array_sort cmp xs = foldr (insert_by cmp) xs []"

definition Array_slice0 :: "'a list \<Rightarrow> int \<Rightarrow> 'a list" where
  "Array_slice0 xs e =
     take (nat (if e < 0 then max (int (length xs) + e) 0 else min e (int (length xs)))) xs"

text \<open>
  \<^verbatim>\<open>createdAt!.getTime()\<close> throws a \<^verbatim>\<open>TypeError\<close> on \<^verbatim>\<open>null\<close>.  A sort of two or
  more elements calls the comparator on each of them, a sort of fewer elements never
  calls it.
\<close>

definition getTime_TypeError :: string where
  "getTime_TypeError = ''Cannot read properties of null (reading 'getTime')''"

definition sort_by_createdAt_desc :: "('a \<Rightarrow> nat option) \<Rightarrow> 'a list \<Rightarrow> string + 'a list" where
  "sort_by_createdAt_desc createdAt xs =
     (if 2 \<le> length xs \<and> (\<exists>x \<in> set xs. createdAt x = None) then Inl getTime_TypeError
      else Inr (Array_sort (\<lambda>a b. int (the (createdAt b)) - int (the (createdAt a))) xs))"

text \<open>
  The remaining operations of \<^verbatim>\<open>MemStorage\<close>.  \<^verbatim>\<open>randomUUID()\<close> and
  \<^verbatim>\<open>new Date()\<close> are inputs: \<open>uuid\<close> and \<open>now\<close>.
\<close>

definition getUser :: "string \<Rightarrow> MemStorage \<Rightarrow> User option" where
  "getUser ident s = Map_get (users s) ident"

definition getLeaderboard :: "int option \<Rightarrow> MemStorage \<Rightarrow> User list" where
  "getLeaderboard limit s =
     Array_slice0 (Array_sort (\<lambda>a b. u_weeklyXp b - u_weeklyXp a) (Map_values (users s)))
       (case limit of None \<Rightarrow> 10 | Some n \<Rightarrow> n)"

definition getPredictionMarkets :: "MemStorage \<Rightarrow> string + PredictionMarket list" where
  "getPredictionMarkets s = sort_by_createdAt_desc m_createdAt (Map_values (predictionMarkets s))"

definition getPredictionMarket :: "string \<Rightarrow> MemStorage \<Rightarrow> PredictionMarket option" where
  "getPredictionMarket ident s = Map_get (predictionMarkets s) ident"

definition createPredictionMarket ::
  "InsertPredictionMarket \<Rightarrow> string \<Rightarrow> nat \<Rightarrow> MemStorage \<Rightarrow> PredictionMarket \<times> MemStorage" where
  "createPredictionMarket insertMarket uuid now s =
     (let market =
            \<lparr> m_id = uuid,
              m_title = im_title insertMarket,
              m_description = im_description insertMarket,
              m_category = im_category insertMarket,
              m_endDate = im_endDate insertMarket,
              m_totalPool = ''0'',
              m_participantCount = 0,
              m_yesPercentage = ''50.00'',
              m_noPercentage = ''50.00'',
              m_status = im_status insertMarket,
              m_result = im_result insertMarket,
              m_createdAt = Some now \<rparr>
      in (market, s\<lparr>predictionMarkets := Map_set (predictionMarkets s) uuid market\<rparr>))"

definition createPrediction ::
  "InsertPrediction \<Rightarrow> string \<Rightarrow> nat \<Rightarrow> MemStorage \<Rightarrow> Prediction \<times> MemStorage" where
  "createPrediction insertPrediction uuid now s =
     (let prediction =
            \<lparr> p_id = uuid,
              p_userId = ip_userId insertPrediction,
              p_marketId = ip_marketId insertPrediction,
              p_prediction = ip_prediction insertPrediction,
              p_amount = ip_amount insertPrediction,
              p_potentialWin = ip_potentialWin insertPrediction,
              p_status = ''active'',
              p_createdAt = Some now \<rparr>
      in (prediction, s\<lparr>predictions := Map_set (predictions s) uuid prediction\<rparr>))"

definition getPredictionsByMarket :: "string \<Rightarrow> MemStorage \<Rightarrow> Prediction list" where
  "getPredictionsByMarket marketId s =
     filter (\<lambda>prediction. p_marketId prediction = marketId) (Map_values (predictions s))"

definition getTasks :: "MemStorage \<Rightarrow> string + Task list" where
  "getTasks s = sort_by_createdAt_desc t_createdAt (filter t_isActive (Map_values (tasks s)))"

definition getTask :: "string \<Rightarrow> MemStorage \<Rightarrow> Task option" where
  "getTask ident s = Map_get (tasks s) ident"

definition createTask :: "InsertTask \<Rightarrow> string \<Rightarrow> nat \<Rightarrow> MemStorage \<Rightarrow> Task \<times> MemStorage" where
  "createTask insertTask uuid now s =
     (let task =
            \<lparr> t_id = uuid,
              t_title = it_title insertTask,
              t_description = it_description insertTask,
              t_category = it_category insertTask,
              t_difficulty = it_difficulty insertTask,
              t_xpReward = it_xpReward insertTask,
              t_bdagReward = it_bdagReward insertTask,
              t_requirements = it_requirements insertTask,
              t_isDaily = it_isDaily insertTask,
              t_isWeekly = it_isWeekly insertTask,
              t_maxCompletions = it_maxCompletions insertTask,
              t_currentCompletions = 0,
              t_isActive = it_isActive insertTask,
              t_createdAt = Some now \<rparr>
      in (task, s\<lparr>tasks := Map_set (tasks s) uuid task\<rparr>))"

definition getUserTasks :: "string \<Rightarrow> MemStorage \<Rightarrow> UserTask list" where
  "getUserTasks userId s =
     filter (\<lambda>userTask. ut_userId userTask = userId) (Map_values (userTasks s))"

definition getUserTask :: "string \<Rightarrow> string \<Rightarrow> MemStorage \<Rightarrow> UserTask option" where
  "getUserTask userId taskId s =
     find (\<lambda>userTask. ut_userId userTask = userId \<and> ut_taskId userTask = taskId)
       (Map_values (userTasks s))"

definition createUserTask ::
  "InsertUserTask \<Rightarrow> string \<Rightarrow> nat \<Rightarrow> MemStorage \<Rightarrow> UserTask \<times> MemStorage" where
  "createUserTask insertUserTask uuid now s =
     (let userTask =
            \<lparr> ut_id = uuid,
              ut_userId = iut_userId insertUserTask,
              ut_taskId = iut_taskId insertUserTask,
              ut_status = iut_status insertUserTask,
              ut_progress = iut_progress insertUserTask,
              ut_maxProgress = iut_maxProgress insertUserTask,
              ut_completedAt = None,
              ut_createdAt = Some now \<rparr>
      in (userTask, s\<lparr>userTasks := Map_set (userTasks s) uuid userTask\<rparr>))"


definition no_User_updates :: Partial_User where
  "no_User_updates =
     \<lparr> pu_id = None, pu_username = None, pu_email = None, pu_password = None,
       pu_walletAddress = None, pu_role = None, pu_level = None, pu_xp = None,
       pu_bdagBalance = None, pu_portfolioValue = None, pu_globalRank = None,
       pu_weeklyXp = None, pu_streakDays = None, pu_lastActive = None, pu_createdAt = None \<rparr>"

definition no_PredictionMarket_updates :: Partial_PredictionMarket where
  "no_PredictionMarket_updates =
     \<lparr> pm_id = None, pm_title = None, pm_description = None, pm_category = None,
       pm_endDate = None, pm_totalPool = None, pm_participantCount = None,
       pm_yesPercentage = None, pm_noPercentage = None, pm_status = None, pm_result = None,
       pm_createdAt = None \<rparr>"

definition no_Task_updates :: Partial_Task where
  "no_Task_updates =
     \<lparr> pt_id = None, pt_title = None, pt_description = None, pt_category = None,
       pt_difficulty = None, pt_xpReward = None, pt_bdagReward = None, pt_requirements = None,
       pt_isDaily = None, pt_isWeekly = None, pt_maxCompletions = None,
       pt_currentCompletions = None, pt_isActive = None, pt_createdAt = None \<rparr>"

definition no_UserAchievement_updates :: Partial_UserAchievement where
  "no_UserAchievement_updates =
     \<lparr> pua_id = None, pua_userId = None, pua_achievementId = None, pua_progress = None,
       pua_maxProgress = None, pua_isCompleted = None, pua_completedAt = None,
       pua_createdAt = None \<rparr>"

definition no_UserTask_updates :: Partial_UserTask where
  "no_UserTask_updates =
     \<lparr> put_id = None, put_userId = None, put_taskId = None, put_status = None,
       put_progress = None, put_maxProgress = None, put_completedAt = None,
       put_createdAt = None \<rparr>"

section \<open>The real-time channel (server/routes.ts)\<close>

text \<open>
  Outbound messages, one constructor for each object literal the server serialises.
\<close>

record leaderboard_row =
  lr_id :: string
  lr_username :: string
  lr_level :: int
  lr_xp :: int
  lr_weeklyXp :: int
  lr_globalRank :: "int option"
  lr_role :: string

datatype message =
    leaderboard_update "leaderboard_row list"
  | market_update "PredictionMarket list"
  | price_update string string string string int
  | task_update "Task list"
  | user_task_update "UserTask list"
  | user_stats_update_balance string string string
  | user_stats_update_xp string int int string int
  | pong

text \<open>
  Library functions are parameters of the model: \<^verbatim>\<open>JSON.parse\<close> (\<open>None\<close> when it
  throws), \<^verbatim>\<open>JSON.stringify\<close> on outbound messages, and \<^verbatim>\<open>jwt.verify\<close> with the
  server's secret (\<open>None\<close> when it throws, else the decoded payload).
\<close>

record platform =
  JSON_parse :: "string \<Rightarrow> jsval option"
  JSON_stringify :: "message \<Rightarrow> string"
  jwt_verify :: "jsval \<Rightarrow> jsval option"

datatype readyState = CONNECTING | OPEN | CLOSING | CLOSED

text \<open>
  A \<^verbatim>\<open>WebSocketClient\<close> with its socket: the socket's state, the frames sent on it,
  the user identity (\<open>Undefined\<close> until set) and the \<^verbatim>\<open>Set\<close> of rooms in insertion
  order.
\<close>

record WebSocketClient =
  ws_readyState :: readyState
  ws_sent :: "string list"
  userId :: jsval
  rooms :: "jsval list"

datatype console_entry =
    log_connected
  | log_joined_room jsval
  | log_authenticated jsval
  | log_disconnected
  | error_authentication_failed
  | error_message
  | error_websocket
  | unhandled_rejection string

text \<open>
  The server: the store, the client object of every connection (by socket), the keys of
  the \<^verbatim>\<open>wsClients\<close> map in insertion order, and the console.
\<close>

record server =
  store :: MemStorage
  clients :: "nat \<Rightarrow> WebSocketClient"
  wsClients :: "nat list"
  console :: "console_entry list"

text \<open>The server at start-up: the sample data, no connection, an empty console.\<close>

definition initial_server :: "nat \<Rightarrow> server" where
  "initial_server now =
     \<lparr> store = initializeData now,
       clients = (\<lambda>ws. \<lparr>ws_readyState = CLOSED, ws_sent = [], userId = Undefined, rooms = []\<rparr>),
       wsClients = [],
       console = [] \<rparr>"

definition ws_send :: "nat \<Rightarrow> string \<Rightarrow> server \<Rightarrow> server" where
  "ws_send ws frame srv =
     srv\<lparr>clients := (clients srv)(ws := (clients srv ws)\<lparr>ws_sent := ws_sent (clients srv ws) @ [frame]\<rparr>)\<rparr>"

definition Set_has :: "jsval list \<Rightarrow> jsval \<Rightarrow> bool" where
  "Set_has xs v = (v \<in> set xs)"

text \<open>
  \<^verbatim>\<open>Set.prototype.add\<close> compares primitives by value and objects by identity; an
  array or an object that \<^verbatim>\<open>JSON.parse\<close> has just built is identical to no member.
\<close>

fun is_object :: "jsval \<Rightarrow> bool" where
  "is_object (Arr xs) = True"
| "is_object (Obj kvs) = True"
| "is_object v = False"

definition Set_add :: "jsval list \<Rightarrow> jsval \<Rightarrow> jsval list" where
  "Set_add xs v = (if \<not> is_object v \<and> v \<in> set xs then xs else xs @ [v])"

fun broadcast_each :: "(WebSocketClient \<Rightarrow> bool) \<Rightarrow> string \<Rightarrow> nat list \<Rightarrow> server \<Rightarrow> server" where
  "broadcast_each wanted messageStr [] srv = srv"
| "broadcast_each wanted messageStr (ws # rest) srv =
     broadcast_each wanted messageStr rest
       (if wanted (clients srv ws) \<and> ws_readyState (clients srv ws) = OPEN
        then ws_send ws messageStr srv else srv)"

definition broadcastToRoom :: "platform \<Rightarrow> string \<Rightarrow> message \<Rightarrow> server \<Rightarrow> server" where
  "broadcastToRoom lib room message srv =
     (let messageStr = JSON_stringify lib message
      in broadcast_each (\<lambda>client. Set_has (rooms client) (Str room)) messageStr (wsClients srv) srv)"

definition broadcastToUser :: "platform \<Rightarrow> string \<Rightarrow> message \<Rightarrow> server \<Rightarrow> server" where
  "broadcastToUser lib uid message srv =
     (let messageStr = JSON_stringify lib message
      in broadcast_each (\<lambda>client. userId client = Str uid) messageStr (wsClients srv) srv)"

text \<open>Connection set-up and tear-down.\<close>

definition on_connection :: "nat \<Rightarrow> server \<Rightarrow> server" where
  "on_connection ws srv =
     srv\<lparr>console := console srv @ [log_connected],
         clients := (clients srv)(ws := \<lparr>ws_readyState = OPEN, ws_sent = [], userId = Undefined, rooms = []\<rparr>),
         wsClients := (if ws \<in> set (wsClients srv) then wsClients srv else wsClients srv @ [ws])\<rparr>"

definition on_close :: "nat \<Rightarrow> server \<Rightarrow> server" where
  "on_close ws srv =
     srv\<lparr>console := console srv @ [log_disconnected],
         wsClients := removeAll ws (wsClients srv)\<rparr>"

definition on_error :: "nat \<Rightarrow> server \<Rightarrow> server" where
  "on_error ws srv =
     srv\<lparr>console := console srv @ [error_websocket],
         wsClients := removeAll ws (wsClients srv)\<rparr>"

text \<open>
  Reading one of the properties \<^verbatim>\<open>type\<close>, \<^verbatim>\<open>data\<close>, \<^verbatim>\<open>room\<close>, \<^verbatim>\<open>token\<close> or
  \<^verbatim>\<open>userId\<close>: a \<^verbatim>\<open>TypeError\<close> (\<open>None\<close>) on \<^verbatim>\<open>null\<close> and \<^verbatim>\<open>undefined\<close>, the
  property's value on an object that has it, \<^verbatim>\<open>undefined\<close> otherwise.
\<close>

fun get_prop :: "jsval \<Rightarrow> string \<Rightarrow> jsval option" where
  "get_prop Undefined k = None"
| "get_prop Null k = None"
| "get_prop (Obj kvs) k = Some (case map_of kvs k of None \<Rightarrow> Undefined | Some v \<Rightarrow> v)"
| "get_prop v k = Some Undefined"

fun ToBoolean :: "jsval \<Rightarrow> bool" where
  "ToBoolean Undefined = False"
| "ToBoolean Null = False"
| "ToBoolean (Bool b) = b"
| "ToBoolean (Num NaN) = False"
| "ToBoolean (Num (Infinity s)) = True"
| "ToBoolean (Num (Fin s m e)) = (m \<noteq> 0)"
| "ToBoolean (Str s) = (s \<noteq> [])"
| "ToBoolean (Arr xs) = True"
| "ToBoolean (Obj kvs) = True"

definition leaderboard_rows :: "User list \<Rightarrow> leaderboard_row list" where
  "leaderboard_rows us =
     map (\<lambda>u. \<lparr> lr_id = u_id u, lr_username = u_username u, lr_level = u_level u,
                 lr_xp = u_xp u, lr_weeklyXp = u_weeklyXp u, lr_globalRank = u_globalRank u,
                 lr_role = u_role u \<rparr>) us"

definition send_if_open :: "platform \<Rightarrow> nat \<Rightarrow> message \<Rightarrow> server \<Rightarrow> server" where
  "send_if_open lib ws message srv =
     (if ws_readyState (clients srv ws) = OPEN then ws_send ws (JSON_stringify lib message) srv
      else srv)"

text \<open>
  The initial snapshot of a room.  The \<^verbatim>\<open>then\<close> callback runs once the handler has
  returned and before any other event; a rejected promise has no handler.
\<close>

definition initial_snapshot :: "platform \<Rightarrow> nat \<Rightarrow> jsval \<Rightarrow> server \<Rightarrow> server" where
  "initial_snapshot lib ws room srv =
     (if room = Str ''leaderboard''
      then send_if_open lib ws
             (leaderboard_update (leaderboard_rows (getLeaderboard (Some 100) (store srv)))) srv
      else if room = Str ''markets''
      then (case getPredictionMarkets (store srv) of
              Inl err \<Rightarrow> srv\<lparr>console := console srv @ [unhandled_rejection err]\<rparr>
            | Inr markets \<Rightarrow> send_if_open lib ws (market_update markets) srv)
      else if room = Str ''tasks''
      then (case getTasks (store srv) of
              Inl err \<Rightarrow> srv\<lparr>console := console srv @ [unhandled_rejection err]\<rparr>
            | Inr ts \<Rightarrow> send_if_open lib ws (task_update ts) srv)
      else srv)"

definition join_room :: "platform \<Rightarrow> nat \<Rightarrow> jsval \<Rightarrow> server \<Rightarrow> server" where
  "join_room lib ws room srv =
     initial_snapshot lib ws room
       (srv\<lparr>clients := (clients srv)(ws := (clients srv ws)\<lparr>rooms := Set_add (rooms (clients srv ws)) room\<rparr>),
            console := console srv @ [log_joined_room room]\<rparr>)"

definition authenticate :: "platform \<Rightarrow> nat \<Rightarrow> jsval \<Rightarrow> server \<Rightarrow> server" where
  "authenticate lib ws token srv =
     (case jwt_verify lib token of
        None \<Rightarrow> srv\<lparr>console := console srv @ [error_authentication_failed]\<rparr>
      | Some decoded \<Rightarrow>
          (case get_prop decoded ''userId'' of
             None \<Rightarrow> srv\<lparr>console := console srv @ [error_authentication_failed]\<rparr>
           | Some uid \<Rightarrow>
               srv\<lparr>clients := (clients srv)(ws := (clients srv ws)\<lparr>userId := uid\<rparr>),
                   console := console srv @ [log_authenticated uid]\<rparr>))"

text \<open>
  The body of the \<^verbatim>\<open>try\<close> block of the message handler: \<open>None\<close> when it throws,
  which happens only before any effect (in \<^verbatim>\<open>JSON.parse\<close> or on reading
  \<^verbatim>\<open>data.type\<close>).
\<close>

definition handle_message :: "platform \<Rightarrow> nat \<Rightarrow> string \<Rightarrow> server \<Rightarrow> server option" where
  "handle_message lib ws message srv =
     (case JSON_parse lib message of
        None \<Rightarrow> None
      | Some data \<Rightarrow>
          (case get_prop data ''type'' of
             None \<Rightarrow> None
           | Some ty \<Rightarrow>
               if ty = Str ''join_room'' then
                 (case get_prop data ''data'' of
                    None \<Rightarrow> None
                  | Some d \<Rightarrow>
                      if \<not> ToBoolean d then Some srv
                      else (case get_prop d ''room'' of
                              None \<Rightarrow> None
                            | Some room \<Rightarrow>
                                if ToBoolean room then Some (join_room lib ws room srv)
                                else Some srv))
               else if ty = Str ''ping'' then Some (send_if_open lib ws pong srv)
               else if ty = Str ''authenticate'' then
                 (case get_prop data ''token'' of
                    None \<Rightarrow> None
                  | Some token \<Rightarrow>
                      if ToBoolean token then Some (authenticate lib ws token srv) else Some srv)
               else Some srv))"

definition on_message :: "platform \<Rightarrow> nat \<Rightarrow> string \<Rightarrow> server \<Rightarrow> server" where
  "on_message lib ws message srv =
     (case handle_message lib ws message srv of
        None \<Rightarrow> srv\<lparr>console := console srv @ [error_message]\<rparr>
      | Some srv' \<Rightarrow> srv')"

text \<open>
  A frame that asks to join the room named \<open>r\<close>: it parses to a value whose
  \<^verbatim>\<open>type\<close> is \<^verbatim>\<open>join_room\<close> and whose \<^verbatim>\<open>data.room\<close> is the string \<open>r\<close>.
\<close>

definition join_room_frame :: "platform \<Rightarrow> string \<Rightarrow> string \<Rightarrow> bool" where
  "join_room_frame lib message r =
     (\<exists>data d. JSON_parse lib message = Some data \<and>
        get_prop data ''type'' = Some (Str ''join_room'') \<and>
        get_prop data ''data'' = Some d \<and> get_prop d ''room'' = Some (Str r))"

section \<open>The request handlers (server/routes.ts)\<close>

text \<open>
  A handler runs after \<^verbatim>\<open>authenticateToken\<close> has put the token's payload into
  \<^verbatim>\<open>req.user\<close>.  Its result is the response (status and body) and the server
  afterwards.  A body validated by a zod schema is given as the outcome of
  \<^verbatim>\<open>parse\<close>: the message of the error thrown, or the value.
\<close>

record req_user =
  req_userId :: string
  req_role :: jsval

datatype body =
    message_body string
  | Prediction_body Prediction
  | PredictionMarket_body PredictionMarket
  | Task_body Task
  | UserTask_body UserTask

type_synonym response = "nat \<times> body"

definition post_prediction_markets ::
  "platform \<Rightarrow> req_user \<Rightarrow> InsertPredictionMarket \<Rightarrow> string \<Rightarrow> nat \<Rightarrow> server \<Rightarrow> response \<times> server" where
  "post_prediction_markets lib user marketData uuid now srv =
     (if req_role user = Str ''basic''
      then ((403, message_body ''Upgrade required to create markets''), srv)
      else
        (let created = createPredictionMarket marketData uuid now (store srv);
             srv1 = srv\<lparr>store := snd created\<rparr>
         in case getPredictionMarkets (store srv1) of
              Inl err \<Rightarrow> ((400, message_body err), srv1)
            | Inr markets \<Rightarrow>
                ((200, PredictionMarket_body (fst created)),
                 broadcastToRoom lib ''markets'' (market_update markets) srv1)))"

text \<open>The market statistics written back after a prediction.\<close>

definition sum_amounts :: "Prediction list \<Rightarrow> jsnum" where
  "sum_amounts ps = foldl (\<lambda>sum p. add sum (parseFloat (p_amount p))) (of_int_num 0) ps"

definition market_statistics :: "Prediction list \<Rightarrow> Partial_PredictionMarket" where
  "market_statistics ps =
     (let totalPool = sum_amounts ps;
          yesAmount = sum_amounts (filter (\<lambda>p. p_prediction p) ps);
          noAmount = sum_amounts (filter (\<lambda>p. \<not> p_prediction p) ps)
      in no_PredictionMarket_updates
           \<lparr> pm_totalPool := Some (toString totalPool),
             pm_participantCount := Some (int (length ps)),
             pm_yesPercentage :=
               Some (if gt totalPool (of_int_num 0)
                     then toFixed 2 (mul (divide_num yesAmount totalPool) (of_int_num 100))
                     else ''50.00''),
             pm_noPercentage :=
               Some (if gt totalPool (of_int_num 0)
                     then toFixed 2 (mul (divide_num noAmount totalPool) (of_int_num 100))
                     else ''50.00'') \<rparr>)"

text \<open>
  A step of a handler that may throw returns the message thrown, if any, and the server
  as it is at that point.
\<close>

definition update_market_statistics ::
  "platform \<Rightarrow> string \<Rightarrow> server \<Rightarrow> string option \<times> server" where
  "update_market_statistics lib marketId srv =
     (case getPredictionMarket marketId (store srv) of
        None \<Rightarrow> (None, srv)
      | Some market \<Rightarrow>
          (case updatePredictionMarket marketId
                  (market_statistics (getPredictionsByMarket marketId (store srv))) (store srv) of
             (Inl err, st) \<Rightarrow> (Some err, srv\<lparr>store := st\<rparr>)
           | (Inr updatedMarket, st) \<Rightarrow>
               (None,
                broadcastToRoom lib ''markets''
                  (price_update marketId (m_totalPool updatedMarket)
                     (m_yesPercentage updatedMarket) (m_noPercentage updatedMarket)
                     (m_participantCount updatedMarket))
                  (srv\<lparr>store := st\<rparr>))))"

definition post_predictions ::
  "platform \<Rightarrow> req_user \<Rightarrow> string + InsertPrediction \<Rightarrow> string \<Rightarrow> nat \<Rightarrow> server \<Rightarrow> response \<times> server" where
  "post_predictions lib user parsed uuid now srv =
     (case parsed of
        Inl err \<Rightarrow> ((400, message_body err), srv)
      | Inr predictionData \<Rightarrow>
          (case getUser (req_userId user) (store srv) of
             None \<Rightarrow> ((404, message_body ''User not found''), srv)
           | Some u \<Rightarrow>
               (let currentBalance = parseFloat (u_bdagBalance u);
                    betAmount = parseFloat (ip_amount predictionData)
                in if lt currentBalance betAmount
                   then ((400, message_body ''Insufficient BDAG balance''), srv)
                   else
                     (let created = createPrediction predictionData uuid now (store srv)
                      in case updateUser (req_userId user)
                                (no_User_updates
                                   \<lparr>pu_bdagBalance := Some (toString (sub currentBalance betAmount))\<rparr>)
                                (snd created) of
                           (Inl err, st) \<Rightarrow> ((400, message_body err), srv\<lparr>store := st\<rparr>)
                         | (Inr updatedUser, st) \<Rightarrow>
                             (case update_market_statistics lib (ip_marketId predictionData)
                                     (srv\<lparr>store := st\<rparr>) of
                                (Some err, srv2) \<Rightarrow> ((400, message_body err), srv2)
                              | (None, srv2) \<Rightarrow>
                                  ((200, Prediction_body (fst created)),
                                   broadcastToUser lib (req_userId user)
                                     (user_stats_update_balance (u_id updatedUser)
                                        (u_bdagBalance updatedUser) (u_portfolioValue updatedUser))
                                     srv2))))))"

definition post_tasks ::
  "platform \<Rightarrow> req_user \<Rightarrow> string + InsertTask \<Rightarrow> string \<Rightarrow> nat \<Rightarrow> server \<Rightarrow> response \<times> server" where
  "post_tasks lib user parsed uuid now srv =
     (if req_role user \<noteq> Str ''validator''
      then ((403, message_body ''Only validators can create tasks''), srv)
      else
        (case parsed of
           Inl err \<Rightarrow> ((400, message_body err), srv)
         | Inr taskData \<Rightarrow>
             (let created = createTask taskData uuid now (store srv);
                  srv1 = srv\<lparr>store := snd created\<rparr>
              in case getTasks (store srv1) of
                   Inl err \<Rightarrow> ((400, message_body err), srv1)
                 | Inr ts \<Rightarrow>
                     ((200, Task_body (fst created)),
                      broadcastToRoom lib ''tasks'' (task_update ts) srv1))))"

fun requirements_length :: "jsval \<Rightarrow> int" where
  "requirements_length (Arr xs) = int (length xs)"
| "requirements_length v = 1"

definition post_tasks_start ::
  "platform \<Rightarrow> req_user \<Rightarrow> string \<Rightarrow> string \<Rightarrow> nat \<Rightarrow> server \<Rightarrow> response \<times> server" where
  "post_tasks_start lib user taskId uuid now srv =
     (case getUserTask (req_userId user) taskId (store srv) of
        Some existingUserTask \<Rightarrow> ((400, message_body ''Task already started''), srv)
      | None \<Rightarrow>
          (case getTask taskId (store srv) of
             None \<Rightarrow> ((404, message_body ''Task not found''), srv)
           | Some task \<Rightarrow>
               (let created =
                      createUserTask
                        \<lparr> iut_userId = req_userId user, iut_taskId = taskId,
                          iut_status = ''in_progress'', iut_progress = 0,
                          iut_maxProgress = requirements_length (t_requirements task) \<rparr>
                        uuid now (store srv);
                    srv1 = srv\<lparr>store := snd created\<rparr>
                in ((200, UserTask_body (fst created)),
                    broadcastToUser lib (req_userId user)
                      (user_task_update (getUserTasks (req_userId user) (store srv1))) srv1))))"



section \<open>Example states\<close>

text \<open>The sample store with one user task and one user achievement added.\<close>

definition example_store :: MemStorage where
  "example_store =
     (initializeData 0)
       \<lparr> userTasks :=
           [(''ut-1'', \<lparr> ut_id = ''ut-1'', ut_userId = ''user-1'', ut_taskId = ''task-1'',
                         ut_status = ''completed'', ut_progress = 3, ut_maxProgress = 3,
                         ut_completedAt = Some 0, ut_createdAt = Some 0 \<rparr>)],
         userAchievements :=
           [(''ua-1'', \<lparr> ua_id = ''ua-1'', ua_userId = ''user-1'',
                         ua_achievementId = ''achievement-1'', ua_progress = 2,
                         ua_maxProgress = 5, ua_isCompleted = False, ua_completedAt = None,
                         ua_createdAt = Some 0 \<rparr>)] \<rparr>"

definition example_user :: "string \<Rightarrow> int \<Rightarrow> User" where
  "example_user ident weeklyXp =
     \<lparr> u_id = ident, u_username = ident, u_email = ident @ ''@example.com'',
       u_password = ''hashed_password'', u_walletAddress = None, u_role = ''basic'',
       u_level = 1, u_xp = weeklyXp, u_bdagBalance = ''100'', u_portfolioValue = ''0'',
       u_globalRank = None, u_weeklyXp = weeklyXp, u_streakDays = 0, u_lastActive = Some 0,
       u_createdAt = Some 0 \<rparr>"

definition three_users :: MemStorage where
  "three_users =
     (initializeData 0)
       \<lparr> users := [(''a'', example_user ''a'' 5), (''b'', example_user ''b'' 7),
                   (''c'', example_user ''c'' 5)] \<rparr>"

text \<open>
  A platform for the examples: \<^verbatim>\<open>JSON.parse\<close> on the frames the examples use (any
  other text in the examples is not JSON), \<^verbatim>\<open>JSON.stringify\<close> giving the
  \<^verbatim>\<open>type\<close> of a message and leaving out its data, and one valid token.
\<close>

definition example_JSON_parse :: "string \<Rightarrow> jsval option" where
  \<open>example_JSON_parse s =
     (if s = ''{"type":"join_room","data":{"room":"markets"}}''
      then Some (Obj [(''type'', Str ''join_room''), (''data'', Obj [(''room'', Str ''markets'')])])
      else if s = ''{"type":"join_room","data":{"room":"lobby"}}''
      then Some (Obj [(''type'', Str ''join_room''), (''data'', Obj [(''room'', Str ''lobby'')])])
      else if s = ''{"type":"join_room","data":{"room":""}}''
      then Some (Obj [(''type'', Str ''join_room''), (''data'', Obj [(''room'', Str [])])])
      else if s = ''{"type":"chat","data":{"text":"hi"}}''
      then Some (Obj [(''type'', Str ''chat''), (''data'', Obj [(''text'', Str ''hi'')])])
      else if s = ''{"type":"ping"}''
      then Some (Obj [(''type'', Str ''ping'')])
      else if s = ''null''
      then Some Null
      else None)\<close>

definition example_JSON_stringify :: "message \<Rightarrow> string" where
  \<open>example_JSON_stringify m =
     (case m of
        leaderboard_update rows \<Rightarrow> ''{"type":"leaderboard_update"}''
      | market_update markets \<Rightarrow> ''{"type":"market_update"}''
      | price_update marketId totalPool yes no participants \<Rightarrow> ''{"type":"price_update"}''
      | task_update ts \<Rightarrow> ''{"type":"task_update"}''
      | user_task_update uts \<Rightarrow> ''{"type":"user_task_update"}''
      | user_stats_update_balance ident balance portfolio \<Rightarrow> ''{"type":"user_stats_update"}''
      | user_stats_update_xp ident xp weeklyXp balance level \<Rightarrow> ''{"type":"user_stats_update"}''
      | pong \<Rightarrow> ''{"type":"pong"}'')\<close>

definition example_platform :: platform where
  "example_platform =
     \<lparr> JSON_parse = example_JSON_parse,
       JSON_stringify = example_JSON_stringify,
       jwt_verify =
         (\<lambda>token. if token = Str ''token-of-user-1''
                   then Some (Obj [(''userId'', Str ''user-1''), (''role'', Str ''validator'')])
                   else None) \<rparr>"

text \<open>
  Three connections: 0 and 1 have joined the room \<open>markets\<close>, 2 has joined \<open>tasks\<close>;
  the socket of 1 is closed but still registered.
\<close>

definition three_connections :: server where
  "three_connections =
     (initial_server 0)
       \<lparr> clients :=
           (\<lambda>ws. \<lparr>ws_readyState = CLOSED, ws_sent = [], userId = Undefined, rooms = []\<rparr>)
             (0 := \<lparr>ws_readyState = OPEN, ws_sent = [], userId = Undefined,
                     rooms = [Str ''markets'']\<rparr>,
              1 := \<lparr>ws_readyState = CLOSED, ws_sent = [], userId = Undefined,
                     rooms = [Str ''markets'']\<rparr>,
              2 := \<lparr>ws_readyState = OPEN, ws_sent = [], userId = Undefined,
                     rooms = [Str ''tasks'']\<rparr>),
         wsClients := [0, 1, 2] \<rparr>"

definition example_market :: InsertPredictionMarket where
  "example_market =
     \<lparr> im_title = ''Mainnet launch before July?'', im_description = ''Resolves on the launch date'',
       im_category = ''network'', im_endDate = 1751328000000, im_status = ''active'',
       im_result = None \<rparr>"

definition basic_user :: req_user where
  "basic_user = \<lparr> req_userId = ''user-2'', req_role = Str ''basic'' \<rparr>"

definition premium_user :: req_user where
  "premium_user = \<lparr> req_userId = ''user-3'', req_role = Str ''premium'' \<rparr>"

definition validator_user :: req_user where
  "validator_user = \<lparr> req_userId = ''user-1'', req_role = Str ''validator'' \<rparr>"


text \<open>
  A server whose store holds the three users \<open>a\<close>, \<open>b\<close> and \<open>c\<close>, each with a balance of
  100 BDAG, and the sample market \<open>market-1\<close>; requests of these users, and predictions
  on that market.
\<close>

definition betting_server :: server where
  "betting_server = (initial_server 0)\<lparr>store := three_users\<rparr>"

definition bettor :: "string \<Rightarrow> req_user" where
  "bettor ident = \<lparr> req_userId = ident, req_role = Str ''basic'' \<rparr>"

definition bet :: "string \<Rightarrow> bool \<Rightarrow> string \<Rightarrow> InsertPrediction" where
  "bet ident yes amount =
     \<lparr> ip_userId = ident, ip_marketId = ''market-1'', ip_prediction = yes, ip_amount = amount,
       ip_potentialWin = amount \<rparr>"

section \<open>Properties of the store\<close>

subsection \<open>The store's maps\<close>

lemma Map_get_set:
  "Map_get (Map_set m k v) k' = (if k' = k then Some v else Map_get m k')"
  by (simp add: Map_get_def Map_set_def update_conv')

lemma Map_keys_set:
  "Map_keys (Map_set m k v) = (if k \<in> set (Map_keys m) then Map_keys m else Map_keys m @ [k])"
  by (simp add: Map_keys_def Map_set_def update_keys)

lemma Map_get_Some_key: "Map_get m k = Some v \<Longrightarrow> k \<in> set (Map_keys m)"
  by (auto simp: Map_get_def Map_keys_def dest: map_of_SomeD intro: rev_image_eqI)


lemma Map_set_fresh: "Map_get m k = None \<Longrightarrow> Map_set m k v = m @ [(k, v)]"
  unfolding Map_get_def Map_set_def
  by (induction m) (auto split: if_splits)

lemma Map_keys_set_present: "Map_get m k = Some v0 \<Longrightarrow> Map_keys (Map_set m k v) = Map_keys m"
  by (simp add: Map_keys_set Map_get_Some_key)

lemma distinct_Map_set: "distinct (Map_keys m) \<Longrightarrow> distinct (Map_keys (Map_set m k v))"
  by (simp add: Map_keys_def Map_set_def distinct_update)

lemma spread_case: "spread old upd = (case upd of None \<Rightarrow> old | Some v \<Rightarrow> v)"
  by (cases upd) simp_all

subsection \<open>The update operations\<close>

lemma updateUser_missing:
  "Map_get (users s) ident = None \<Longrightarrow> updateUser ident updates s = (Inl ''User not found'', s)"
  by (simp add: updateUser_def Let_def)

lemma updateUser_present:
  "Map_get (users s) ident = Some old \<Longrightarrow>
   updateUser ident updates s =
     (Inr (spread_User old updates),
      s\<lparr>users := Map_set (users s) ident (spread_User old updates)\<rparr>)"
  by (simp add: updateUser_def Let_def)

lemma spread_User_fields:
  "u_id (spread_User old p) = (case pu_id p of None \<Rightarrow> u_id old | Some v \<Rightarrow> v) \<and>
   u_username (spread_User old p) = (case pu_username p of None \<Rightarrow> u_username old | Some v \<Rightarrow> v) \<and>
   u_email (spread_User old p) = (case pu_email p of None \<Rightarrow> u_email old | Some v \<Rightarrow> v) \<and>
   u_password (spread_User old p) = (case pu_password p of None \<Rightarrow> u_password old | Some v \<Rightarrow> v) \<and>
   u_walletAddress (spread_User old p) = (case pu_walletAddress p of None \<Rightarrow> u_walletAddress old | Some v \<Rightarrow> v) \<and>
   u_role (spread_User old p) = (case pu_role p of None \<Rightarrow> u_role old | Some v \<Rightarrow> v) \<and>
   u_level (spread_User old p) = (case pu_level p of None \<Rightarrow> u_level old | Some v \<Rightarrow> v) \<and>
   u_xp (spread_User old p) = (case pu_xp p of None \<Rightarrow> u_xp old | Some v \<Rightarrow> v) \<and>
   u_bdagBalance (spread_User old p) = (case pu_bdagBalance p of None \<Rightarrow> u_bdagBalance old | Some v \<Rightarrow> v) \<and>
   u_portfolioValue (spread_User old p) = (case pu_portfolioValue p of None \<Rightarrow> u_portfolioValue old | Some v \<Rightarrow> v) \<and>
   u_globalRank (spread_User old p) = (case pu_globalRank p of None \<Rightarrow> u_globalRank old | Some v \<Rightarrow> v) \<and>
   u_weeklyXp (spread_User old p) = (case pu_weeklyXp p of None \<Rightarrow> u_weeklyXp old | Some v \<Rightarrow> v) \<and>
   u_streakDays (spread_User old p) = (case pu_streakDays p of None \<Rightarrow> u_streakDays old | Some v \<Rightarrow> v) \<and>
   u_lastActive (spread_User old p) = (case pu_lastActive p of None \<Rightarrow> u_lastActive old | Some v \<Rightarrow> v) \<and>
   u_createdAt (spread_User old p) = (case pu_createdAt p of None \<Rightarrow> u_createdAt old | Some v \<Rightarrow> v)"
  by (simp add: spread_User_def spread_case)

lemma updateUser_shallow_merge:
  "Map_get (users s) ident = Some old \<Longrightarrow>
   \<exists>new. updateUser ident p s = (Inr new, s\<lparr>users := Map_set (users s) ident new\<rparr>) \<and>
     u_id new = (case pu_id p of None \<Rightarrow> u_id old | Some v \<Rightarrow> v) \<and>
     u_username new = (case pu_username p of None \<Rightarrow> u_username old | Some v \<Rightarrow> v) \<and>
     u_email new = (case pu_email p of None \<Rightarrow> u_email old | Some v \<Rightarrow> v) \<and>
     u_password new = (case pu_password p of None \<Rightarrow> u_password old | Some v \<Rightarrow> v) \<and>
     u_walletAddress new = (case pu_walletAddress p of None \<Rightarrow> u_walletAddress old | Some v \<Rightarrow> v) \<and>
     u_role new = (case pu_role p of None \<Rightarrow> u_role old | Some v \<Rightarrow> v) \<and>
     u_level new = (case pu_level p of None \<Rightarrow> u_level old | Some v \<Rightarrow> v) \<and>
     u_xp new = (case pu_xp p of None \<Rightarrow> u_xp old | Some v \<Rightarrow> v) \<and>
     u_bdagBalance new = (case pu_bdagBalance p of None \<Rightarrow> u_bdagBalance old | Some v \<Rightarrow> v) \<and>
     u_portfolioValue new = (case pu_portfolioValue p of None \<Rightarrow> u_portfolioValue old | Some v \<Rightarrow> v) \<and>
     u_globalRank new = (case pu_globalRank p of None \<Rightarrow> u_globalRank old | Some v \<Rightarrow> v) \<and>
     u_weeklyXp new = (case pu_weeklyXp p of None \<Rightarrow> u_weeklyXp old | Some v \<Rightarrow> v) \<and>
     u_streakDays new = (case pu_streakDays p of None \<Rightarrow> u_streakDays old | Some v \<Rightarrow> v) \<and>
     u_lastActive new = (case pu_lastActive p of None \<Rightarrow> u_lastActive old | Some v \<Rightarrow> v) \<and>
     u_createdAt new = (case pu_createdAt p of None \<Rightarrow> u_createdAt old | Some v \<Rightarrow> v) \<and>
     Map_get (Map_set (users s) ident new) ident = Some new \<and>
     (\<forall>k. k \<noteq> ident \<longrightarrow> Map_get (Map_set (users s) ident new) k = Map_get (users s) k) \<and>
     Map_keys (Map_set (users s) ident new) = Map_keys (users s)"
  using spread_User_fields [of old p]
  by (intro exI [of _ "spread_User old p"])
     (simp add: updateUser_present Map_get_set Map_keys_set_present)

lemma updatePredictionMarket_missing:
  "Map_get (predictionMarkets s) ident = None \<Longrightarrow> updatePredictionMarket ident updates s = (Inl ''Market not found'', s)"
  by (simp add: updatePredictionMarket_def Let_def)

lemma updatePredictionMarket_present:
  "Map_get (predictionMarkets s) ident = Some old \<Longrightarrow>
   updatePredictionMarket ident updates s =
     (Inr (spread_PredictionMarket old updates),
      s\<lparr>predictionMarkets := Map_set (predictionMarkets s) ident (spread_PredictionMarket old updates)\<rparr>)"
  by (simp add: updatePredictionMarket_def Let_def)

lemma spread_PredictionMarket_fields:
  "m_id (spread_PredictionMarket old p) = (case pm_id p of None \<Rightarrow> m_id old | Some v \<Rightarrow> v) \<and>
   m_title (spread_PredictionMarket old p) = (case pm_title p of None \<Rightarrow> m_title old | Some v \<Rightarrow> v) \<and>
   m_description (spread_PredictionMarket old p) = (case pm_description p of None \<Rightarrow> m_description old | Some v \<Rightarrow> v) \<and>
   m_category (spread_PredictionMarket old p) = (case pm_category p of None \<Rightarrow> m_category old | Some v \<Rightarrow> v) \<and>
   m_endDate (spread_PredictionMarket old p) = (case pm_endDate p of None \<Rightarrow> m_endDate old | Some v \<Rightarrow> v) \<and>
   m_totalPool (spread_PredictionMarket old p) = (case pm_totalPool p of None \<Rightarrow> m_totalPool old | Some v \<Rightarrow> v) \<and>
   m_participantCount (spread_PredictionMarket old p) = (case pm_participantCount p of None \<Rightarrow> m_participantCount old | Some v \<Rightarrow> v) \<and>
   m_yesPercentage (spread_PredictionMarket old p) = (case pm_yesPercentage p of None \<Rightarrow> m_yesPercentage old | Some v \<Rightarrow> v) \<and>
   m_noPercentage (spread_PredictionMarket old p) = (case pm_noPercentage p of None \<Rightarrow> m_noPercentage old | Some v \<Rightarrow> v) \<and>
   m_status (spread_PredictionMarket old p) = (case pm_status p of None \<Rightarrow> m_status old | Some v \<Rightarrow> v) \<and>
   m_result (spread_PredictionMarket old p) = (case pm_result p of None \<Rightarrow> m_result old | Some v \<Rightarrow> v) \<and>
   m_createdAt (spread_PredictionMarket old p) = (case pm_createdAt p of None \<Rightarrow> m_createdAt old | Some v \<Rightarrow> v)"
  by (simp add: spread_PredictionMarket_def spread_case)

lemma updatePredictionMarket_shallow_merge:
  "Map_get (predictionMarkets s) ident = Some old \<Longrightarrow>
   \<exists>new. updatePredictionMarket ident p s = (Inr new, s\<lparr>predictionMarkets := Map_set (predictionMarkets s) ident new\<rparr>) \<and>
     m_id new = (case pm_id p of None \<Rightarrow> m_id old | Some v \<Rightarrow> v) \<and>
     m_title new = (case pm_title p of None \<Rightarrow> m_title old | Some v \<Rightarrow> v) \<and>
     m_description new = (case pm_description p of None \<Rightarrow> m_description old | Some v \<Rightarrow> v) \<and>
     m_category new = (case pm_category p of None \<Rightarrow> m_category old | Some v \<Rightarrow> v) \<and>
     m_endDate new = (case pm_endDate p of None \<Rightarrow> m_endDate old | Some v \<Rightarrow> v) \<and>
     m_totalPool new = (case pm_totalPool p of None \<Rightarrow> m_totalPool old | Some v \<Rightarrow> v) \<and>
     m_participantCount new = (case pm_participantCount p of None \<Rightarrow> m_participantCount old | Some v \<Rightarrow> v) \<and>
     m_yesPercentage new = (case pm_yesPercentage p of None \<Rightarrow> m_yesPercentage old | Some v \<Rightarrow> v) \<and>
     m_noPercentage new = (case pm_noPercentage p of None \<Rightarrow> m_noPercentage old | Some v \<Rightarrow> v) \<and>
     m_status new = (case pm_status p of None \<Rightarrow> m_status old | Some v \<Rightarrow> v) \<and>
     m_result new = (case pm_result p of None \<Rightarrow> m_result old | Some v \<Rightarrow> v) \<and>
     m_createdAt new = (case pm_createdAt p of None \<Rightarrow> m_createdAt old | Some v \<Rightarrow> v) \<and>
     Map_get (Map_set (predictionMarkets s) ident new) ident = Some new \<and>
     (\<forall>k. k \<noteq> ident \<longrightarrow> Map_get (Map_set (predictionMarkets s) ident new) k = Map_get (predictionMarkets s) k) \<and>
     Map_keys (Map_set (predictionMarkets s) ident new) = Map_keys (predictionMarkets s)"
  using spread_PredictionMarket_fields [of old p]
  by (intro exI [of _ "spread_PredictionMarket old p"])
     (simp add: updatePredictionMarket_present Map_get_set Map_keys_set_present)

lemma updateTask_missing:
  "Map_get (tasks s) ident = None \<Longrightarrow> updateTask ident updates s = (Inl ''Task not found'', s)"
  by (simp add: updateTask_def Let_def)

lemma updateTask_present:
  "Map_get (tasks s) ident = Some old \<Longrightarrow>
   updateTask ident updates s =
     (Inr (spread_Task old updates),
      s\<lparr>tasks := Map_set (tasks s) ident (spread_Task old updates)\<rparr>)"
  by (simp add: updateTask_def Let_def)

lemma spread_Task_fields:
  "t_id (spread_Task old p) = (case pt_id p of None \<Rightarrow> t_id old | Some v \<Rightarrow> v) \<and>
   t_title (spread_Task old p) = (case pt_title p of None \<Rightarrow> t_title old | Some v \<Rightarrow> v) \<and>
   t_description (spread_Task old p) = (case pt_description p of None \<Rightarrow> t_description old | Some v \<Rightarrow> v) \<and>
   t_category (spread_Task old p) = (case pt_category p of None \<Rightarrow> t_category old | Some v \<Rightarrow> v) \<and>
   t_difficulty (spread_Task old p) = (case pt_difficulty p of None \<Rightarrow> t_difficulty old | Some v \<Rightarrow> v) \<and>
   t_xpReward (spread_Task old p) = (case pt_xpReward p of None \<Rightarrow> t_xpReward old | Some v \<Rightarrow> v) \<and>
   t_bdagReward (spread_Task old p) = (case pt_bdagReward p of None \<Rightarrow> t_bdagReward old | Some v \<Rightarrow> v) \<and>
   t_requirements (spread_Task old p) = (case pt_requirements p of None \<Rightarrow> t_requirements old | Some v \<Rightarrow> v) \<and>
   t_isDaily (spread_Task old p) = (case pt_isDaily p of None \<Rightarrow> t_isDaily old | Some v \<Rightarrow> v) \<and>
   t_isWeekly (spread_Task old p) = (case pt_isWeekly p of None \<Rightarrow> t_isWeekly old | Some v \<Rightarrow> v) \<and>
   t_maxCompletions (spread_Task old p) = (case pt_maxCompletions p of None \<Rightarrow> t_maxCompletions old | Some v \<Rightarrow> v) \<and>
   t_currentCompletions (spread_Task old p) = (case pt_currentCompletions p of None \<Rightarrow> t_currentCompletions old | Some v \<Rightarrow> v) \<and>
   t_isActive (spread_Task old p) = (case pt_isActive p of None \<Rightarrow> t_isActive old | Some v \<Rightarrow> v) \<and>
   t_createdAt (spread_Task old p) = (case pt_createdAt p of None \<Rightarrow> t_createdAt old | Some v \<Rightarrow> v)"
  by (simp add: spread_Task_def spread_case)

lemma updateTask_shallow_merge:
  "Map_get (tasks s) ident = Some old \<Longrightarrow>
   \<exists>new. updateTask ident p s = (Inr new, s\<lparr>tasks := Map_set (tasks s) ident new\<rparr>) \<and>
     t_id new = (case pt_id p of None \<Rightarrow> t_id old | Some v \<Rightarrow> v) \<and>
     t_title new = (case pt_title p of None \<Rightarrow> t_title old | Some v \<Rightarrow> v) \<and>
     t_description new = (case pt_description p of None \<Rightarrow> t_description old | Some v \<Rightarrow> v) \<and>
     t_category new = (case pt_category p of None \<Rightarrow> t_category old | Some v \<Rightarrow> v) \<and>
     t_difficulty new = (case pt_difficulty p of None \<Rightarrow> t_difficulty old | Some v \<Rightarrow> v) \<and>
     t_xpReward new = (case pt_xpReward p of None \<Rightarrow> t_xpReward old | Some v \<Rightarrow> v) \<and>
     t_bdagReward new = (case pt_bdagReward p of None \<Rightarrow> t_bdagReward old | Some v \<Rightarrow> v) \<and>
     t_requirements new = (case pt_requirements p of None \<Rightarrow> t_requirements old | Some v \<Rightarrow> v) \<and>
     t_isDaily new = (case pt_isDaily p of None \<Rightarrow> t_isDaily old | Some v \<Rightarrow> v) \<and>
     t_isWeekly new = (case pt_isWeekly p of None \<Rightarrow> t_isWeekly old | Some v \<Rightarrow> v) \<and>
     t_maxCompletions new = (case pt_maxCompletions p of None \<Rightarrow> t_maxCompletions old | Some v \<Rightarrow> v) \<and>
     t_currentCompletions new = (case pt_currentCompletions p of None \<Rightarrow> t_currentCompletions old | Some v \<Rightarrow> v) \<and>
     t_isActive new = (case pt_isActive p of None \<Rightarrow> t_isActive old | Some v \<Rightarrow> v) \<and>
     t_createdAt new = (case pt_createdAt p of None \<Rightarrow> t_createdAt old | Some v \<Rightarrow> v) \<and>
     Map_get (Map_set (tasks s) ident new) ident = Some new \<and>
     (\<forall>k. k \<noteq> ident \<longrightarrow> Map_get (Map_set (tasks s) ident new) k = Map_get (tasks s) k) \<and>
     Map_keys (Map_set (tasks s) ident new) = Map_keys (tasks s)"
  using spread_Task_fields [of old p]
  by (intro exI [of _ "spread_Task old p"])
     (simp add: updateTask_present Map_get_set Map_keys_set_present)

lemma updateUserTask_missing:
  "Map_get (userTasks s) ident = None \<Longrightarrow> updateUserTask ident updates s = (Inl ''User task not found'', s)"
  by (simp add: updateUserTask_def Let_def)

lemma updateUserTask_present:
  "Map_get (userTasks s) ident = Some old \<Longrightarrow>
   updateUserTask ident updates s =
     (Inr (spread_UserTask old updates),
      s\<lparr>userTasks := Map_set (userTasks s) ident (spread_UserTask old updates)\<rparr>)"
  by (simp add: updateUserTask_def Let_def)

lemma spread_UserTask_fields:
  "ut_id (spread_UserTask old p) = (case put_id p of None \<Rightarrow> ut_id old | Some v \<Rightarrow> v) \<and>
   ut_userId (spread_UserTask old p) = (case put_userId p of None \<Rightarrow> ut_userId old | Some v \<Rightarrow> v) \<and>
   ut_taskId (spread_UserTask old p) = (case put_taskId p of None \<Rightarrow> ut_taskId old | Some v \<Rightarrow> v) \<and>
   ut_status (spread_UserTask old p) = (case put_status p of None \<Rightarrow> ut_status old | Some v \<Rightarrow> v) \<and>
   ut_progress (spread_UserTask old p) = (case put_progress p of None \<Rightarrow> ut_progress old | Some v \<Rightarrow> v) \<and>
   ut_maxProgress (spread_UserTask old p) = (case put_maxProgress p of None \<Rightarrow> ut_maxProgress old | Some v \<Rightarrow> v) \<and>
   ut_completedAt (spread_UserTask old p) = (case put_completedAt p of None \<Rightarrow> ut_completedAt old | Some v \<Rightarrow> v) \<and>
   ut_createdAt (spread_UserTask old p) = (case put_createdAt p of None \<Rightarrow> ut_createdAt old | Some v \<Rightarrow> v)"
  by (simp add: spread_UserTask_def spread_case)

lemma updateUserTask_shallow_merge:
  "Map_get (userTasks s) ident = Some old \<Longrightarrow>
   \<exists>new. updateUserTask ident p s = (Inr new, s\<lparr>userTasks := Map_set (userTasks s) ident new\<rparr>) \<and>
     ut_id new = (case put_id p of None \<Rightarrow> ut_id old | Some v \<Rightarrow> v) \<and>
     ut_userId new = (case put_userId p of None \<Rightarrow> ut_userId old | Some v \<Rightarrow> v) \<and>
     ut_taskId new = (case put_taskId p of None \<Rightarrow> ut_taskId old | Some v \<Rightarrow> v) \<and>
     ut_status new = (case put_status p of None \<Rightarrow> ut_status old | Some v \<Rightarrow> v) \<and>
     ut_progress new = (case put_progress p of None \<Rightarrow> ut_progress old | Some v \<Rightarrow> v) \<and>
     ut_maxProgress new = (case put_maxProgress p of None \<Rightarrow> ut_maxProgress old | Some v \<Rightarrow> v) \<and>
     ut_completedAt new = (case put_completedAt p of None \<Rightarrow> ut_completedAt old | Some v \<Rightarrow> v) \<and>
     ut_createdAt new = (case put_createdAt p of None \<Rightarrow> ut_createdAt old | Some v \<Rightarrow> v) \<and>
     Map_get (Map_set (userTasks s) ident new) ident = Some new \<and>
     (\<forall>k. k \<noteq> ident \<longrightarrow> Map_get (Map_set (userTasks s) ident new) k = Map_get (userTasks s) k) \<and>
     Map_keys (Map_set (userTasks s) ident new) = Map_keys (userTasks s)"
  using spread_UserTask_fields [of old p]
  by (intro exI [of _ "spread_UserTask old p"])
     (simp add: updateUserTask_present Map_get_set Map_keys_set_present)

lemma updateUserAchievement_missing:
  "Map_get (userAchievements s) ident = None \<Longrightarrow> updateUserAchievement ident updates s = (Inl ''User achievement not found'', s)"
  by (simp add: updateUserAchievement_def Let_def)

lemma updateUserAchievement_present:
  "Map_get (userAchievements s) ident = Some old \<Longrightarrow>
   updateUserAchievement ident updates s =
     (Inr (spread_UserAchievement old updates),
      s\<lparr>userAchievements := Map_set (userAchievements s) ident (spread_UserAchievement old updates)\<rparr>)"
  by (simp add: updateUserAchievement_def Let_def)

lemma spread_UserAchievement_fields:
  "ua_id (spread_UserAchievement old p) = (case pua_id p of None \<Rightarrow> ua_id old | Some v \<Rightarrow> v) \<and>
   ua_userId (spread_UserAchievement old p) = (case pua_userId p of None \<Rightarrow> ua_userId old | Some v \<Rightarrow> v) \<and>
   ua_achievementId (spread_UserAchievement old p) = (case pua_achievementId p of None \<Rightarrow> ua_achievementId old | Some v \<Rightarrow> v) \<and>
   ua_progress (spread_UserAchievement old p) = (case pua_progress p of None \<Rightarrow> ua_progress old | Some v \<Rightarrow> v) \<and>
   ua_maxProgress (spread_UserAchievement old p) = (case pua_maxProgress p of None \<Rightarrow> ua_maxProgress old | Some v \<Rightarrow> v) \<and>
   ua_isCompleted (spread_UserAchievement old p) = (case pua_isCompleted p of None \<Rightarrow> ua_isCompleted old | Some v \<Rightarrow> v) \<and>
   ua_completedAt (spread_UserAchievement old p) = (case pua_completedAt p of None \<Rightarrow> ua_completedAt old | Some v \<Rightarrow> v) \<and>
   ua_createdAt (spread_UserAchievement old p) = (case pua_createdAt p of None \<Rightarrow> ua_createdAt old | Some v \<Rightarrow> v)"
  by (simp add: spread_UserAchievement_def spread_case)

lemma updateUserAchievement_shallow_merge:
  "Map_get (userAchievements s) ident = Some old \<Longrightarrow>
   \<exists>new. updateUserAchievement ident p s = (Inr new, s\<lparr>userAchievements := Map_set (userAchievements s) ident new\<rparr>) \<and>
     ua_id new = (case pua_id p of None \<Rightarrow> ua_id old | Some v \<Rightarrow> v) \<and>
     ua_userId new = (case pua_userId p of None \<Rightarrow> ua_userId old | Some v \<Rightarrow> v) \<and>
     ua_achievementId new = (case pua_achievementId p of None \<Rightarrow> ua_achievementId old | Some v \<Rightarrow> v) \<and>
     ua_progress new = (case pua_progress p of None \<Rightarrow> ua_progress old | Some v \<Rightarrow> v) \<and>
     ua_maxProgress new = (case pua_maxProgress p of None \<Rightarrow> ua_maxProgress old | Some v \<Rightarrow> v) \<and>
     ua_isCompleted new = (case pua_isCompleted p of None \<Rightarrow> ua_isCompleted old | Some v \<Rightarrow> v) \<and>
     ua_completedAt new = (case pua_completedAt p of None \<Rightarrow> ua_completedAt old | Some v \<Rightarrow> v) \<and>
     ua_createdAt new = (case pua_createdAt p of None \<Rightarrow> ua_createdAt old | Some v \<Rightarrow> v) \<and>
     Map_get (Map_set (userAchievements s) ident new) ident = Some new \<and>
     (\<forall>k. k \<noteq> ident \<longrightarrow> Map_get (Map_set (userAchievements s) ident new) k = Map_get (userAchievements s) k) \<and>
     Map_keys (Map_set (userAchievements s) ident new) = Map_keys (userAchievements s)"
  using spread_UserAchievement_fields [of old p]
  by (intro exI [of _ "spread_UserAchievement old p"])
     (simp add: updateUserAchievement_present Map_get_set Map_keys_set_present)

text \<open>
  Claim C10.  Each of \<open>updateUser\<close>, \<open>updatePredictionMarket\<close>, \<open>updateTask\<close>,
  \<open>updateUserTask\<close> and \<open>updateUserAchievement\<close> is a shallow merge.  For an identifier
  that is not a key of the map the operation throws its "not found" error and the store
  is the same afterwards.  For a key of the map it returns the merged record and stores
  it under the key: every field is the value named in the updates, or the previous value
  when the updates do not name it (the \<open>id\<close> field included); a lookup of any other key
  gives what it gave before, the keys and their order are unchanged, and so are the
  other maps of the store.
\<close>

theorem update_operations_shallow_merge:
  "(Map_get (users s) ident = None \<longrightarrow>
      updateUser ident pa s = (Inl ''User not found'', s)) \<and>
   (\<forall>old. Map_get (users s) ident = Some old \<longrightarrow>
      (\<exists>new. updateUser ident pa s = (Inr new, s\<lparr>users := Map_set (users s) ident new\<rparr>) \<and>
         u_id new = (case pu_id pa of None \<Rightarrow> u_id old | Some v \<Rightarrow> v) \<and>
         u_username new = (case pu_username pa of None \<Rightarrow> u_username old | Some v \<Rightarrow> v) \<and>
         u_email new = (case pu_email pa of None \<Rightarrow> u_email old | Some v \<Rightarrow> v) \<and>
         u_password new = (case pu_password pa of None \<Rightarrow> u_password old | Some v \<Rightarrow> v) \<and>
         u_walletAddress new = (case pu_walletAddress pa of None \<Rightarrow> u_walletAddress old | Some v \<Rightarrow> v) \<and>
         u_role new = (case pu_role pa of None \<Rightarrow> u_role old | Some v \<Rightarrow> v) \<and>
         u_level new = (case pu_level pa of None \<Rightarrow> u_level old | Some v \<Rightarrow> v) \<and>
         u_xp new = (case pu_xp pa of None \<Rightarrow> u_xp old | Some v \<Rightarrow> v) \<and>
         u_bdagBalance new = (case pu_bdagBalance pa of None \<Rightarrow> u_bdagBalance old | Some v \<Rightarrow> v) \<and>
         u_portfolioValue new = (case pu_portfolioValue pa of None \<Rightarrow> u_portfolioValue old | Some v \<Rightarrow> v) \<and>
         u_globalRank new = (case pu_globalRank pa of None \<Rightarrow> u_globalRank old | Some v \<Rightarrow> v) \<and>
         u_weeklyXp new = (case pu_weeklyXp pa of None \<Rightarrow> u_weeklyXp old | Some v \<Rightarrow> v) \<and>
         u_streakDays new = (case pu_streakDays pa of None \<Rightarrow> u_streakDays old | Some v \<Rightarrow> v) \<and>
         u_lastActive new = (case pu_lastActive pa of None \<Rightarrow> u_lastActive old | Some v \<Rightarrow> v) \<and>
         u_createdAt new = (case pu_createdAt pa of None \<Rightarrow> u_createdAt old | Some v \<Rightarrow> v) \<and>
         Map_get (Map_set (users s) ident new) ident = Some new \<and>
         (\<forall>k. k \<noteq> ident \<longrightarrow>
            Map_get (Map_set (users s) ident new) k = Map_get (users s) k) \<and>
         Map_keys (Map_set (users s) ident new) = Map_keys (users s))) \<and>
   (Map_get (predictionMarkets s) ident = None \<longrightarrow>
      updatePredictionMarket ident pb s = (Inl ''Market not found'', s)) \<and>
   (\<forall>old. Map_get (predictionMarkets s) ident = Some old \<longrightarrow>
      (\<exists>new. updatePredictionMarket ident pb s = (Inr new, s\<lparr>predictionMarkets := Map_set (predictionMarkets s) ident new\<rparr>) \<and>
         m_id new = (case pm_id pb of None \<Rightarrow> m_id old | Some v \<Rightarrow> v) \<and>
         m_title new = (case pm_title pb of None \<Rightarrow> m_title old | Some v \<Rightarrow> v) \<and>
         m_description new = (case pm_description pb of None \<Rightarrow> m_description old | Some v \<Rightarrow> v) \<and>
         m_category new = (case pm_category pb of None \<Rightarrow> m_category old | Some v \<Rightarrow> v) \<and>
         m_endDate new = (case pm_endDate pb of None \<Rightarrow> m_endDate old | Some v \<Rightarrow> v) \<and>
         m_totalPool new = (case pm_totalPool pb of None \<Rightarrow> m_totalPool old | Some v \<Rightarrow> v) \<and>
         m_participantCount new = (case pm_participantCount pb of None \<Rightarrow> m_participantCount old | Some v \<Rightarrow> v) \<and>
         m_yesPercentage new = (case pm_yesPercentage pb of None \<Rightarrow> m_yesPercentage old | Some v \<Rightarrow> v) \<and>
         m_noPercentage new = (case pm_noPercentage pb of None \<Rightarrow> m_noPercentage old | Some v \<Rightarrow> v) \<and>
         m_status new = (case pm_status pb of None \<Rightarrow> m_status old | Some v \<Rightarrow> v) \<and>
         m_result new = (case pm_result pb of None \<Rightarrow> m_result old | Some v \<Rightarrow> v) \<and>
         m_createdAt new = (case pm_createdAt pb of None \<Rightarrow> m_createdAt old | Some v \<Rightarrow> v) \<and>
         Map_get (Map_set (predictionMarkets s) ident new) ident = Some new \<and>
         (\<forall>k. k \<noteq> ident \<longrightarrow>
            Map_get (Map_set (predictionMarkets s) ident new) k = Map_get (predictionMarkets s) k) \<and>
         Map_keys (Map_set (predictionMarkets s) ident new) = Map_keys (predictionMarkets s))) \<and>
   (Map_get (tasks s) ident = None \<longrightarrow>
      updateTask ident pc s = (Inl ''Task not found'', s)) \<and>
   (\<forall>old. Map_get (tasks s) ident = Some old \<longrightarrow>
      (\<exists>new. updateTask ident pc s = (Inr new, s\<lparr>tasks := Map_set (tasks s) ident new\<rparr>) \<and>
         t_id new = (case pt_id pc of None \<Rightarrow> t_id old | Some v \<Rightarrow> v) \<and>
         t_title new = (case pt_title pc of None \<Rightarrow> t_title old | Some v \<Rightarrow> v) \<and>
         t_description new = (case pt_description pc of None \<Rightarrow> t_description old | Some v \<Rightarrow> v) \<and>
         t_category new = (case pt_category pc of None \<Rightarrow> t_category old | Some v \<Rightarrow> v) \<and>
         t_difficulty new = (case pt_difficulty pc of None \<Rightarrow> t_difficulty old | Some v \<Rightarrow> v) \<and>
         t_xpReward new = (case pt_xpReward pc of None \<Rightarrow> t_xpReward old | Some v \<Rightarrow> v) \<and>
         t_bdagReward new = (case pt_bdagReward pc of None \<Rightarrow> t_bdagReward old | Some v \<Rightarrow> v) \<and>
         t_requirements new = (case pt_requirements pc of None \<Rightarrow> t_requirements old | Some v \<Rightarrow> v) \<and>
         t_isDaily new = (case pt_isDaily pc of None \<Rightarrow> t_isDaily old | Some v \<Rightarrow> v) \<and>
         t_isWeekly new = (case pt_isWeekly pc of None \<Rightarrow> t_isWeekly old | Some v \<Rightarrow> v) \<and>
         t_maxCompletions new = (case pt_maxCompletions pc of None \<Rightarrow> t_maxCompletions old | Some v \<Rightarrow> v) \<and>
         t_currentCompletions new = (case pt_currentCompletions pc of None \<Rightarrow> t_currentCompletions old | Some v \<Rightarrow> v) \<and>
         t_isActive new = (case pt_isActive pc of None \<Rightarrow> t_isActive old | Some v \<Rightarrow> v) \<and>
         t_createdAt new = (case pt_createdAt pc of None \<Rightarrow> t_createdAt old | Some v \<Rightarrow> v) \<and>
         Map_get (Map_set (tasks s) ident new) ident = Some new \<and>
         (\<forall>k. k \<noteq> ident \<longrightarrow>
            Map_get (Map_set (tasks s) ident new) k = Map_get (tasks s) k) \<and>
         Map_keys (Map_set (tasks s) ident new) = Map_keys (tasks s))) \<and>
   (Map_get (userTasks s) ident = None \<longrightarrow>
      updateUserTask ident pd s = (Inl ''User task not found'', s)) \<and>
   (\<forall>old. Map_get (userTasks s) ident = Some old \<longrightarrow>
      (\<exists>new. updateUserTask ident pd s = (Inr new, s\<lparr>userTasks := Map_set (userTasks s) ident new\<rparr>) \<and>
         ut_id new = (case put_id pd of None \<Rightarrow> ut_id old | Some v \<Rightarrow> v) \<and>
         ut_userId new = (case put_userId pd of None \<Rightarrow> ut_userId old | Some v \<Rightarrow> v) \<and>
         ut_taskId new = (case put_taskId pd of None \<Rightarrow> ut_taskId old | Some v \<Rightarrow> v) \<and>
         ut_status new = (case put_status pd of None \<Rightarrow> ut_status old | Some v \<Rightarrow> v) \<and>
         ut_progress new = (case put_progress pd of None \<Rightarrow> ut_progress old | Some v \<Rightarrow> v) \<and>
         ut_maxProgress new = (case put_maxProgress pd of None \<Rightarrow> ut_maxProgress old | Some v \<Rightarrow> v) \<and>
         ut_completedAt new = (case put_completedAt pd of None \<Rightarrow> ut_completedAt old | Some v \<Rightarrow> v) \<and>
         ut_createdAt new = (case put_createdAt pd of None \<Rightarrow> ut_createdAt old | Some v \<Rightarrow> v) \<and>
         Map_get (Map_set (userTasks s) ident new) ident = Some new \<and>
         (\<forall>k. k \<noteq> ident \<longrightarrow>
            Map_get (Map_set (userTasks s) ident new) k = Map_get (userTasks s) k) \<and>
         Map_keys (Map_set (userTasks s) ident new) = Map_keys (userTasks s))) \<and>
   (Map_get (userAchievements s) ident = None \<longrightarrow>
      updateUserAchievement ident pe s = (Inl ''User achievement not found'', s)) \<and>
   (\<forall>old. Map_get (userAchievements s) ident = Some old \<longrightarrow>
      (\<exists>new. updateUserAchievement ident pe s = (Inr new, s\<lparr>userAchievements := Map_set (userAchievements s) ident new\<rparr>) \<and>
         ua_id new = (case pua_id pe of None \<Rightarrow> ua_id old | Some v \<Rightarrow> v) \<and>
         ua_userId new = (case pua_userId pe of None \<Rightarrow> ua_userId old | Some v \<Rightarrow> v) \<and>
         ua_achievementId new = (case pua_achievementId pe of None \<Rightarrow> ua_achievementId old | Some v \<Rightarrow> v) \<and>
         ua_progress new = (case pua_progress pe of None \<Rightarrow> ua_progress old | Some v \<Rightarrow> v) \<and>
         ua_maxProgress new = (case pua_maxProgress pe of None \<Rightarrow> ua_maxProgress old | Some v \<Rightarrow> v) \<and>
         ua_isCompleted new = (case pua_isCompleted pe of None \<Rightarrow> ua_isCompleted old | Some v \<Rightarrow> v) \<and>
         ua_completedAt new = (case pua_completedAt pe of None \<Rightarrow> ua_completedAt old | Some v \<Rightarrow> v) \<and>
         ua_createdAt new = (case pua_createdAt pe of None \<Rightarrow> ua_createdAt old | Some v \<Rightarrow> v) \<and>
         Map_get (Map_set (userAchievements s) ident new) ident = Some new \<and>
         (\<forall>k. k \<noteq> ident \<longrightarrow>
            Map_get (Map_set (userAchievements s) ident new) k = Map_get (userAchievements s) k) \<and>
         Map_keys (Map_set (userAchievements s) ident new) = Map_keys (userAchievements s)))"
  using updateUser_missing [of s ident pa] updateUser_shallow_merge [of s ident _ pa]
    updatePredictionMarket_missing [of s ident pb] updatePredictionMarket_shallow_merge [of s ident _ pb]
    updateTask_missing [of s ident pc] updateTask_shallow_merge [of s ident _ pc]
    updateUserTask_missing [of s ident pd] updateUserTask_shallow_merge [of s ident _ pd]
    updateUserAchievement_missing [of s ident pe] updateUserAchievement_shallow_merge [of s ident _ pe]
  by blast

lemma example_store_lookups:
  "Map_get (users example_store) ''user-1'' \<noteq> None"
  "Map_get (users example_store) ''nobody'' = None"
  "Map_get (predictionMarkets example_store) ''nobody'' = None"
  "Map_get (tasks example_store) ''nobody'' = None"
  "Map_get (userTasks example_store) ''nobody'' = None"
  "Map_get (userAchievements example_store) ''nobody'' = None"
  by (simp_all add: example_store_def initializeData_def Map_get_def)

theorem update_operations_shallow_merge_witness:
  "(\<exists>new. fst (updateUser ''user-1'' (no_User_updates\<lparr>pu_xp := Some 1\<rparr>) example_store) = Inr new
      \<and> u_xp new = 1 \<and> u_id new = ''user-1'' \<and> u_weeklyXp new = 1247) \<and>
   updateUser ''nobody'' no_User_updates example_store = (Inl ''User not found'', example_store) \<and>
   updatePredictionMarket ''nobody'' no_PredictionMarket_updates example_store = (Inl ''Market not found'', example_store) \<and>
   updateTask ''nobody'' no_Task_updates example_store = (Inl ''Task not found'', example_store) \<and>
   updateUserTask ''nobody'' no_UserTask_updates example_store = (Inl ''User task not found'', example_store) \<and>
   updateUserAchievement ''nobody'' no_UserAchievement_updates example_store
     = (Inl ''User achievement not found'', example_store)"
proof -
  note lookups = example_store_lookups
  let ?p = "no_User_updates\<lparr>pu_xp := Some 1\<rparr>"
  note a = update_operations_shallow_merge [of example_store "''user-1''" ?p no_PredictionMarket_updates no_Task_updates no_UserTask_updates no_UserAchievement_updates]
  note d = update_operations_shallow_merge [of example_store "''nobody''" no_User_updates no_PredictionMarket_updates no_Task_updates no_UserTask_updates no_UserAchievement_updates]
  obtain old where old: "Map_get (users example_store) ''user-1'' = Some old"
    using lookups(1) by blast
  then have v: "u_id old = ''user-1''" "u_weeklyXp old = 1247"
    by (auto simp: example_store_def initializeData_def Map_get_def)
  have p: "pu_xp ?p = Some 1" "pu_id ?p = None" "pu_weeklyXp ?p = None"
    by (simp_all add: no_User_updates_def)
  from a [THEN conjunct2, THEN conjunct1, rule_format, OF old]
  obtain new where n:
    "updateUser ''user-1'' ?p example_store
       = (Inr new, example_store\<lparr>users := Map_set (users example_store) ''user-1'' new\<rparr>)"
    "u_xp new = (case pu_xp ?p of None \<Rightarrow> u_xp old | Some v \<Rightarrow> v)"
    "u_id new = (case pu_id ?p of None \<Rightarrow> u_id old | Some v \<Rightarrow> v)"
    "u_weeklyXp new = (case pu_weeklyXp ?p of None \<Rightarrow> u_weeklyXp old | Some v \<Rightarrow> v)"
    by (elim exE conjE) (rule that)
  have 1: "\<exists>new. fst (updateUser ''user-1'' ?p example_store) = Inr new
      \<and> u_xp new = 1 \<and> u_id new = ''user-1'' \<and> u_weeklyXp new = 1247"
    using n v by (intro exI [of _ new]) (simp add: p)
  have 2: "updateUser ''nobody'' no_User_updates example_store = (Inl ''User not found'', example_store)"
    using d [THEN conjunct1] lookups(2) by (rule mp)
  have 3: "updatePredictionMarket ''nobody'' no_PredictionMarket_updates example_store
             = (Inl ''Market not found'', example_store)"
    using d [THEN conjunct2, THEN conjunct2, THEN conjunct1] lookups(3) by (rule mp)
  have 4: "updateTask ''nobody'' no_Task_updates example_store = (Inl ''Task not found'', example_store)"
    using d [THEN conjunct2, THEN conjunct2, THEN conjunct2, THEN conjunct2, THEN conjunct1]
      lookups(4) by (rule mp)
  have 5: "updateUserTask ''nobody'' no_UserTask_updates example_store
             = (Inl ''User task not found'', example_store)"
    using d [THEN conjunct2, THEN conjunct2, THEN conjunct2, THEN conjunct2, THEN conjunct2,
             THEN conjunct2, THEN conjunct1]
      lookups(5) by (rule mp)
  have 6: "updateUserAchievement ''nobody'' no_UserAchievement_updates example_store
             = (Inl ''User achievement not found'', example_store)"
    using d [THEN conjunct2, THEN conjunct2, THEN conjunct2, THEN conjunct2, THEN conjunct2,
             THEN conjunct2, THEN conjunct2, THEN conjunct2, THEN conjunct1]
      lookups(6) by (rule mp)
  from 1 2 3 4 5 6 show ?thesis by (intro conjI)
qed

subsection \<open>The leaderboard\<close>










section \<open>Properties of the real-time channel\<close>

lemma ws_send_simps:
  "store (ws_send ws frame srv) = store srv"
  "wsClients (ws_send ws frame srv) = wsClients srv"
  "console (ws_send ws frame srv) = console srv"
  "clients (ws_send ws frame srv) ws' =
     (if ws' = ws then (clients srv ws)\<lparr>ws_sent := ws_sent (clients srv ws) @ [frame]\<rparr>
      else clients srv ws')"
  by (simp_all add: ws_send_def)

lemma broadcast_each_frame:
  "store (broadcast_each wanted frame ks srv) = store srv \<and>
   wsClients (broadcast_each wanted frame ks srv) = wsClients srv \<and>
   console (broadcast_each wanted frame ks srv) = console srv"
  by (induction ks arbitrary: srv) (simp_all add: ws_send_simps)

lemma broadcast_each_clients:
  assumes "distinct ks"
    and "\<And>c frames. wanted (c\<lparr>ws_sent := frames\<rparr>) = wanted c"
  shows "clients (broadcast_each wanted frame ks srv) ws =
           (if ws \<in> set ks \<and> wanted (clients srv ws) \<and> ws_readyState (clients srv ws) = OPEN
            then (clients srv ws)\<lparr>ws_sent := ws_sent (clients srv ws) @ [frame]\<rparr>
            else clients srv ws)"
  using assms(1)
proof (induction ks arbitrary: srv)
  case Nil
  then show ?case by simp
next
  case (Cons k ks)
  then have k: "k \<notin> set ks" and d: "distinct ks" by simp_all
  show ?case
  proof (cases "wanted (clients srv k) \<and> ws_readyState (clients srv k) = OPEN")
    case True
    then have "clients (broadcast_each wanted frame (k # ks) srv) ws
                 = clients (broadcast_each wanted frame ks (ws_send k frame srv)) ws"
      by simp
    also have "\<dots> = (if ws \<in> set ks \<and> wanted (clients (ws_send k frame srv) ws)
                            \<and> ws_readyState (clients (ws_send k frame srv) ws) = OPEN
                       then (clients (ws_send k frame srv) ws)
                              \<lparr>ws_sent := ws_sent (clients (ws_send k frame srv) ws) @ [frame]\<rparr>
                       else clients (ws_send k frame srv) ws)"
      by (rule Cons.IH [OF d])
    finally show ?thesis
      using True k by (auto simp: ws_send_simps assms(2))
  next
    case False
    then have "clients (broadcast_each wanted frame (k # ks) srv) ws
                 = clients (broadcast_each wanted frame ks srv) ws"
      by auto
    with Cons.IH [OF d, of srv] False show ?thesis by auto
  qed
qed


lemma registry_distinct:
  "distinct (wsClients (initial_server now))"
  "distinct (wsClients srv) \<Longrightarrow> distinct (wsClients (on_connection ws srv))"
  "distinct (wsClients srv) \<Longrightarrow> distinct (wsClients (on_close ws srv))"
  "distinct (wsClients srv) \<Longrightarrow> distinct (wsClients (on_error ws srv))"
  by (simp_all add: initial_server_def on_connection_def on_close_def on_error_def
        distinct_removeAll)

text \<open>
  Claim C1.  The keys of the \<^verbatim>\<open>wsClients\<close> map are distinct.  After
  \<open>broadcastToRoom lib room message\<close> every registered connection that has the room in
  its membership set and whose socket is open has the serialised message appended once
  to the frames sent on it; every other connection (not registered, not a member, or not
  open) is exactly as before; nothing is logged, and the store and the registry are
  unchanged.
\<close>

theorem broadcastToRoom_delivery:
  assumes "distinct (wsClients srv)"
  shows "(\<forall>ws. clients (broadcastToRoom lib room message srv) ws =
            (if ws \<in> set (wsClients srv) \<and> Str room \<in> set (rooms (clients srv ws))
                \<and> ws_readyState (clients srv ws) = OPEN
             then (clients srv ws)\<lparr>ws_sent := ws_sent (clients srv ws) @ [JSON_stringify lib message]\<rparr>
             else clients srv ws)) \<and>
         store (broadcastToRoom lib room message srv) = store srv \<and>
         wsClients (broadcastToRoom lib room message srv) = wsClients srv \<and>
         console (broadcastToRoom lib room message srv) = console srv"
  using assms
  by (simp add: broadcastToRoom_def Let_def Set_has_def broadcast_each_frame
        broadcast_each_clients)

theorem broadcastToRoom_delivery_witness:
  \<open>distinct (wsClients three_connections) \<and>
   ws_sent (clients (broadcastToRoom example_platform ''markets'' pong three_connections) 0)
     = [''{"type":"pong"}''] \<and>
   ws_sent (clients (broadcastToRoom example_platform ''markets'' pong three_connections) 1) = [] \<and>
   ws_sent (clients (broadcastToRoom example_platform ''markets'' pong three_connections) 2) = [] \<and>
   console (broadcastToRoom example_platform ''markets'' pong three_connections) = []\<close>
proof -
  have d: "distinct (wsClients three_connections)"
    by (simp add: three_connections_def)
  from broadcastToRoom_delivery [OF d, of example_platform "''markets''" pong]
  show ?thesis
    by (simp add: d three_connections_def initial_server_def example_platform_def
          example_JSON_stringify_def)
qed

lemma send_if_open_simps:
  "store (send_if_open lib ws m srv) = store srv"
  "wsClients (send_if_open lib ws m srv) = wsClients srv"
  "console (send_if_open lib ws m srv) = console srv"
  "rooms (clients (send_if_open lib ws m srv) ws') = rooms (clients srv ws')"
  "userId (clients (send_if_open lib ws m srv) ws') = userId (clients srv ws')"
  "ws_readyState (clients (send_if_open lib ws m srv) ws') = ws_readyState (clients srv ws')"
  by (simp_all add: send_if_open_def ws_send_simps)

lemma initial_snapshot_simps:
  "store (initial_snapshot lib ws room srv) = store srv"
  "wsClients (initial_snapshot lib ws room srv) = wsClients srv"
  "rooms (clients (initial_snapshot lib ws room srv) ws') = rooms (clients srv ws')"
  "userId (clients (initial_snapshot lib ws room srv) ws') = userId (clients srv ws')"
  "ws_readyState (clients (initial_snapshot lib ws room srv) ws')
     = ws_readyState (clients srv ws')"
  by (simp_all add: initial_snapshot_def send_if_open_simps split: sum.split)

lemma join_room_simps:
  "store (join_room lib ws room srv) = store srv"
  "wsClients (join_room lib ws room srv) = wsClients srv"
  "rooms (clients (join_room lib ws room srv) ws')
     = (if ws' = ws then Set_add (rooms (clients srv ws)) room else rooms (clients srv ws'))"
  "userId (clients (join_room lib ws room srv) ws') = userId (clients srv ws')"
  "ws_readyState (clients (join_room lib ws room srv) ws') = ws_readyState (clients srv ws')"
  by (simp_all add: join_room_def initial_snapshot_simps)

lemma get_prop_Str_truthy: "get_prop d k = Some (Str r) \<Longrightarrow> ToBoolean d"
  by (cases d) auto

lemma on_message_join_room:
  assumes "join_room_frame lib message r"
  shows "on_message lib ws message srv = (if r = [] then srv else join_room lib ws (Str r) srv)"
proof -
  from assms obtain data d where
    "JSON_parse lib message = Some data" "get_prop data ''type'' = Some (Str ''join_room'')"
    "get_prop data ''data'' = Some d" "get_prop d ''room'' = Some (Str r)"
    unfolding join_room_frame_def by blast
  then show ?thesis
    using get_prop_Str_truthy [of d "''room''" r]
    by (simp add: on_message_def handle_message_def)
qed

lemma set_Set_add: "set (Set_add xs v) = insert v (set xs)"
  by (auto simp: Set_add_def)

lemma distinct_Set_add_Str: "distinct xs \<Longrightarrow> distinct (Set_add xs (Str r))"
  by (simp add: Set_add_def)

lemma join_rooms_sequence:
  assumes "list_all2 (join_room_frame lib) messages rs"
  shows "set (rooms (clients (foldl (\<lambda>srv m. on_message lib ws m srv) srv messages) ws))
           = set (rooms (clients srv ws)) \<union> Str ` {r \<in> set rs. r \<noteq> []} \<and>
         (distinct (rooms (clients srv ws)) \<longrightarrow>
            distinct (rooms (clients (foldl (\<lambda>srv m. on_message lib ws m srv) srv messages) ws)))"
  using assms
proof (induction messages rs arbitrary: srv rule: list_all2_induct)
  case Nil
  then show ?case by simp
next
  case (Cons m ms r rs)
  show ?case
    using Cons.IH [of "on_message lib ws m srv"] Cons.hyps(1)
    by (auto simp: on_message_join_room join_room_simps set_Set_add distinct_Set_add_Str)
qed

text \<open>
  Claim C5, amended.  After a new connection has processed a sequence of \<^verbatim>\<open>join_room\<close>
  frames, its membership set is the set of the non-empty room names requested in the
  sequence, each held once.
\<close>

theorem join_room_membership:
  assumes "list_all2 (join_room_frame lib) messages rs"
  shows "set (rooms (clients (foldl (\<lambda>srv m. on_message lib ws m srv)
                                (on_connection ws srv) messages) ws))
           = Str ` {r \<in> set rs. r \<noteq> []} \<and>
         distinct (rooms (clients (foldl (\<lambda>srv m. on_message lib ws m srv)
                                     (on_connection ws srv) messages) ws))"
  using join_rooms_sequence [OF assms, of ws "on_connection ws srv"]
  by (simp add: on_connection_def)

theorem join_room_membership_witness:
  \<open>list_all2 (join_room_frame example_platform)
     [''{"type":"join_room","data":{"room":"markets"}}'',
      ''{"type":"join_room","data":{"room":"lobby"}}'',
      ''{"type":"join_room","data":{"room":"markets"}}'']
     [''markets'', ''lobby'', ''markets''] \<and>
   set (rooms (clients (foldl (\<lambda>srv m. on_message example_platform 0 m srv)
                          (on_connection 0 (initial_server 0))
                          [''{"type":"join_room","data":{"room":"markets"}}'',
                           ''{"type":"join_room","data":{"room":"lobby"}}'',
                           ''{"type":"join_room","data":{"room":"markets"}}'']) 0))
     = {Str ''markets'', Str ''lobby''}\<close>
proof -
  have f: \<open>list_all2 (join_room_frame example_platform)
     [''{"type":"join_room","data":{"room":"markets"}}'',
      ''{"type":"join_room","data":{"room":"lobby"}}'',
      ''{"type":"join_room","data":{"room":"markets"}}'']
     [''markets'', ''lobby'', ''markets'']\<close>
    by (simp add: join_room_frame_def example_platform_def example_JSON_parse_def)
  from join_room_membership [OF f, of 0 "initial_server 0"] f show ?thesis
    by auto
qed

text \<open>
  The claim as stated fails for the empty room name: the handler joins a room only when
  \<^verbatim>\<open>data.data.room\<close> is truthy, and the empty string is not.
\<close>

theorem join_room_empty_name_counterexample:
  \<open>join_room_frame example_platform ''{"type":"join_room","data":{"room":""}}'' [] \<and>
   rooms (clients (on_message example_platform 0 ''{"type":"join_room","data":{"room":""}}''
                     (on_connection 0 (initial_server 0))) 0) = []\<close>
  by (simp add: join_room_frame_def example_platform_def example_JSON_parse_def on_message_def
        handle_message_def on_connection_def)

text \<open>
  Claim C7, amended.  A frame that \<^verbatim>\<open>JSON.parse\<close> rejects, and a frame whose value
  has no readable \<^verbatim>\<open>type\<close> (\<^verbatim>\<open>null\<close>), is caught: one error is logged and nothing
  else changes.  A frame whose \<^verbatim>\<open>type\<close> is none of \<^verbatim>\<open>join_room\<close>, \<^verbatim>\<open>ping\<close> and
  \<^verbatim>\<open>authenticate\<close> changes nothing at all, and nothing is logged for it.  In each case
  the connection stays registered and open, no frame is sent, and the membership sets and
  identities are as before.
\<close>

theorem malformed_frame_handling:
  "(JSON_parse lib message = None \<longrightarrow>
      on_message lib ws message srv = srv\<lparr>console := console srv @ [error_message]\<rparr>) \<and>
   (\<forall>data. JSON_parse lib message = Some data \<and> get_prop data ''type'' = None \<longrightarrow>
      on_message lib ws message srv = srv\<lparr>console := console srv @ [error_message]\<rparr>) \<and>
   (\<forall>data ty. JSON_parse lib message = Some data \<and> get_prop data ''type'' = Some ty \<and>
        ty \<noteq> Str ''join_room'' \<and> ty \<noteq> Str ''ping'' \<and> ty \<noteq> Str ''authenticate'' \<longrightarrow>
      on_message lib ws message srv = srv) \<and>
   clients (srv\<lparr>console := console srv @ [error_message]\<rparr>) = clients srv \<and>
   wsClients (srv\<lparr>console := console srv @ [error_message]\<rparr>) = wsClients srv \<and>
   store (srv\<lparr>console := console srv @ [error_message]\<rparr>) = store srv"
  by (simp add: on_message_def handle_message_def)

theorem malformed_frame_handling_witness:
  \<open>on_message example_platform 0 ''{"type":'' (on_connection 0 (initial_server 0))
     = (on_connection 0 (initial_server 0))\<lparr>console := [log_connected, error_message]\<rparr> \<and>
   on_message example_platform 0 ''null'' (on_connection 0 (initial_server 0))
     = (on_connection 0 (initial_server 0))\<lparr>console := [log_connected, error_message]\<rparr> \<and>
   on_message example_platform 0 ''{"type":"chat","data":{"text":"hi"}}''
       (on_connection 0 (initial_server 0))
     = on_connection 0 (initial_server 0)\<close>
proof -
  let ?srv = "on_connection 0 (initial_server 0)"
  have c: "console ?srv = [log_connected]"
    by (simp add: on_connection_def initial_server_def)
  have p1: \<open>JSON_parse example_platform ''{"type":'' = None\<close>
    by (simp add: example_platform_def example_JSON_parse_def)
  have p2: \<open>JSON_parse example_platform ''null'' = Some Null \<and> get_prop Null ''type'' = None\<close>
    by (simp add: example_platform_def example_JSON_parse_def)
  have p3: \<open>JSON_parse example_platform ''{"type":"chat","data":{"text":"hi"}}''
              = Some (Obj [(''type'', Str ''chat''), (''data'', Obj [(''text'', Str ''hi'')])]) \<and>
            get_prop (Obj [(''type'', Str ''chat''), (''data'', Obj [(''text'', Str ''hi'')])]) ''type''
              = Some (Str ''chat'') \<and>
            Str ''chat'' \<noteq> Str ''join_room'' \<and> Str ''chat'' \<noteq> Str ''ping'' \<and>
            Str ''chat'' \<noteq> Str ''authenticate''\<close>
    by (simp add: example_platform_def example_JSON_parse_def)
  note t1 = malformed_frame_handling [of example_platform \<open>''{"type":''\<close> 0 ?srv]
  note t2 = malformed_frame_handling [of example_platform \<open>''null''\<close> 0 ?srv]
  note t3 = malformed_frame_handling
              [of example_platform \<open>''{"type":"chat","data":{"text":"hi"}}''\<close> 0 ?srv]
  have 1: \<open>on_message example_platform 0 ''{"type":'' ?srv
             = ?srv\<lparr>console := console ?srv @ [error_message]\<rparr>\<close>
    using t1 [THEN conjunct1] p1 by (rule mp)
  have 2: \<open>on_message example_platform 0 ''null'' ?srv
             = ?srv\<lparr>console := console ?srv @ [error_message]\<rparr>\<close>
    using t2 [THEN conjunct2, THEN conjunct1] p2 by blast
  have 3: \<open>on_message example_platform 0 ''{"type":"chat","data":{"text":"hi"}}'' ?srv = ?srv\<close>
    using t3 [THEN conjunct2, THEN conjunct2, THEN conjunct1] p3 by blast
  from 1 2 3 show ?thesis by (simp add: c)
qed

text \<open>
  The claim as stated fails for a frame with an unrecognised type: the \<^verbatim>\<open>switch\<close>
  has no default branch, no error arises, and the console gets no entry.
\<close>

theorem unrecognized_type_not_logged_counterexample:
  \<open>console (on_message example_platform 0 ''{"type":"chat","data":{"text":"hi"}}''
              (on_connection 0 (initial_server 0))) = [log_connected] \<and>
   error_message \<notin> set (console (on_message example_platform 0
                                      ''{"type":"chat","data":{"text":"hi"}}''
                                      (on_connection 0 (initial_server 0))))\<close>
  by (simp add: example_platform_def example_JSON_parse_def on_message_def handle_message_def
        on_connection_def initial_server_def)

section \<open>Properties of the request handlers\<close>

lemma broadcast_store:
  "store (broadcastToRoom lib room m srv) = store srv"
  "store (broadcastToUser lib uid m srv) = store srv"
  by (simp_all add: broadcastToRoom_def broadcastToUser_def Let_def broadcast_each_frame)

subsection \<open>Creating markets and tasks\<close>

text \<open>
  Claim C6.  A market-creation request whose role is \<open>basic\<close> is answered with status
  403 and leaves the server as it was.  With role \<open>premium\<close> or \<open>validator\<close> the market
  is stored under the new identifier with an empty pool and even odds, and the answer is
  status 200 with the market whenever the listing of markets for the broadcast does not
  throw.  A task-creation request whose role is not \<open>validator\<close> is answered with status
  403 and leaves the server as it was, whatever its body.
\<close>

theorem creation_role_gating:
  "(req_role user = Str ''basic'' \<longrightarrow>
      post_prediction_markets lib user marketData uuid now srv
        = ((403, message_body ''Upgrade required to create markets''), srv)) \<and>
   (req_role user = Str ''premium'' \<or> req_role user = Str ''validator'' \<longrightarrow>
      (\<exists>market.
         predictionMarkets (store (snd (post_prediction_markets lib user marketData uuid now srv)))
           = Map_set (predictionMarkets (store srv)) uuid market \<and>
         m_id market = uuid \<and> m_title market = im_title marketData \<and>
         m_totalPool market = ''0'' \<and> m_participantCount market = 0 \<and>
         m_yesPercentage market = ''50.00'' \<and> m_noPercentage market = ''50.00'' \<and>
         (\<forall>markets.
            getPredictionMarkets
              ((store srv)\<lparr>predictionMarkets := Map_set (predictionMarkets (store srv)) uuid market\<rparr>)
              = Inr markets \<longrightarrow>
            fst (post_prediction_markets lib user marketData uuid now srv)
              = (200, PredictionMarket_body market)))) \<and>
   (req_role user \<noteq> Str ''validator'' \<longrightarrow>
      post_tasks lib user parsed uuid' now' srv
        = ((403, message_body ''Only validators can create tasks''), srv))"
proof -
  let ?market = "fst (createPredictionMarket marketData uuid now (store srv))"
  have created: "snd (createPredictionMarket marketData uuid now (store srv))
                   = (store srv)\<lparr>predictionMarkets :=
                                   Map_set (predictionMarkets (store srv)) uuid ?market\<rparr>"
    by (simp add: createPredictionMarket_def Let_def)
  have fields: "m_id ?market = uuid" "m_title ?market = im_title marketData"
    "m_totalPool ?market = ''0''" "m_participantCount ?market = 0"
    "m_yesPercentage ?market = ''50.00''" "m_noPercentage ?market = ''50.00''"
    by (simp_all add: createPredictionMarket_def Let_def)
  have allowed: "req_role user \<noteq> Str ''basic'' \<Longrightarrow>
      predictionMarkets (store (snd (post_prediction_markets lib user marketData uuid now srv)))
        = Map_set (predictionMarkets (store srv)) uuid ?market \<and>
      (\<forall>markets.
         getPredictionMarkets
           ((store srv)\<lparr>predictionMarkets := Map_set (predictionMarkets (store srv)) uuid ?market\<rparr>)
           = Inr markets \<longrightarrow>
         fst (post_prediction_markets lib user marketData uuid now srv)
           = (200, PredictionMarket_body ?market))"
    by (simp add: post_prediction_markets_def Let_def created broadcast_store split: sum.split)
  have 1: "req_role user = Str ''basic'' \<longrightarrow>
      post_prediction_markets lib user marketData uuid now srv
        = ((403, message_body ''Upgrade required to create markets''), srv)"
    by (simp add: post_prediction_markets_def)
  have 3: "req_role user \<noteq> Str ''validator'' \<longrightarrow>
      post_tasks lib user parsed uuid' now' srv
        = ((403, message_body ''Only validators can create tasks''), srv)"
    by (simp add: post_tasks_def)
  have 2: "req_role user = Str ''premium'' \<or> req_role user = Str ''validator'' \<longrightarrow>
      (\<exists>market.
         predictionMarkets (store (snd (post_prediction_markets lib user marketData uuid now srv)))
           = Map_set (predictionMarkets (store srv)) uuid market \<and>
         m_id market = uuid \<and> m_title market = im_title marketData \<and>
         m_totalPool market = ''0'' \<and> m_participantCount market = 0 \<and>
         m_yesPercentage market = ''50.00'' \<and> m_noPercentage market = ''50.00'' \<and>
         (\<forall>markets.
            getPredictionMarkets
              ((store srv)\<lparr>predictionMarkets := Map_set (predictionMarkets (store srv)) uuid market\<rparr>)
              = Inr markets \<longrightarrow>
            fst (post_prediction_markets lib user marketData uuid now srv)
              = (200, PredictionMarket_body market)))"
  proof
    assume "req_role user = Str ''premium'' \<or> req_role user = Str ''validator''"
    then have "req_role user \<noteq> Str ''basic''" by auto
    from allowed [OF this] fields show "\<exists>market.
         predictionMarkets (store (snd (post_prediction_markets lib user marketData uuid now srv)))
           = Map_set (predictionMarkets (store srv)) uuid market \<and>
         m_id market = uuid \<and> m_title market = im_title marketData \<and>
         m_totalPool market = ''0'' \<and> m_participantCount market = 0 \<and>
         m_yesPercentage market = ''50.00'' \<and> m_noPercentage market = ''50.00'' \<and>
         (\<forall>markets.
            getPredictionMarkets
              ((store srv)\<lparr>predictionMarkets := Map_set (predictionMarkets (store srv)) uuid market\<rparr>)
              = Inr markets \<longrightarrow>
            fst (post_prediction_markets lib user marketData uuid now srv)
              = (200, PredictionMarket_body market))"
      by (intro exI [of _ ?market]) simp
  qed
  from 1 2 3 show ?thesis by (intro conjI)
qed

theorem creation_role_gating_witness:
  "post_prediction_markets example_platform basic_user example_market ''market-2'' 5 (initial_server 0)
     = ((403, message_body ''Upgrade required to create markets''), initial_server 0) \<and>
   fst (fst (post_prediction_markets example_platform premium_user example_market ''market-2'' 5
               (initial_server 0))) = 200 \<and>
   Map_keys (predictionMarkets (store (snd
      (post_prediction_markets example_platform premium_user example_market ''market-2'' 5
         (initial_server 0))))) = [''market-1'', ''market-2''] \<and>
   post_tasks example_platform premium_user (Inl ''Required'') ''task-2'' 5 (initial_server 0)
     = ((403, message_body ''Only validators can create tasks''), initial_server 0)"
proof -
  note t1 = creation_role_gating
    [of basic_user example_platform example_market "''market-2''" 5 "initial_server 0"]
  note t2 = creation_role_gating
    [of premium_user example_platform example_market "''market-2''" 5 "initial_server 0"
        "Inl ''Required''" "''task-2''" 5]
  have 1: "post_prediction_markets example_platform basic_user example_market ''market-2'' 5
             (initial_server 0)
           = ((403, message_body ''Upgrade required to create markets''), initial_server 0)"
    using t1 [THEN conjunct1] by (simp add: basic_user_def)
  have 4: "post_tasks example_platform premium_user (Inl ''Required'') ''task-2'' 5 (initial_server 0)
     = ((403, message_body ''Only validators can create tasks''), initial_server 0)"
    using t2 [THEN conjunct2, THEN conjunct2] by (simp add: premium_user_def)
  have r: "req_role premium_user = Str ''premium'' \<or> req_role premium_user = Str ''validator''"
    by (simp add: premium_user_def)
  from t2 [THEN conjunct2, THEN conjunct1, rule_format, OF r]
  obtain market where m:
    "predictionMarkets (store (snd (post_prediction_markets example_platform premium_user
        example_market ''market-2'' 5 (initial_server 0))))
       = Map_set (predictionMarkets (store (initial_server 0))) ''market-2'' market"
    "m_id market = ''market-2''"
    "\<forall>markets.
       getPredictionMarkets
         ((store (initial_server 0))\<lparr>predictionMarkets :=
             Map_set (predictionMarkets (store (initial_server 0))) ''market-2'' market\<rparr>)
         = Inr markets \<longrightarrow>
       fst (post_prediction_markets example_platform premium_user example_market ''market-2'' 5
              (initial_server 0)) = (200, PredictionMarket_body market)"
    by (elim exE conjE) (rule that)
  have 3: "Map_keys (predictionMarkets (store (snd
      (post_prediction_markets example_platform premium_user example_market ''market-2'' 5
         (initial_server 0))))) = [''market-1'', ''market-2'']"
    unfolding m(1) by (simp add: Map_keys_def Map_set_def initial_server_def initializeData_def)
  have 2: "fst (fst (post_prediction_markets example_platform premium_user example_market
                       ''market-2'' 5 (initial_server 0))) = 200"
    by (simp add: post_prediction_markets_def premium_user_def createPredictionMarket_def
          getPredictionMarkets_def sort_by_createdAt_desc_def Map_values_def Map_set_def
          initial_server_def initializeData_def Let_def split: sum.split)
  from 1 2 3 4 show ?thesis by (intro conjI)
qed

subsection \<open>Starting a task\<close>

lemma getUserTask_exists:
  "getUserTask u t s \<noteq> None \<longleftrightarrow>
     (\<exists>ut \<in> set (Map_values (userTasks s)). ut_userId ut = u \<and> ut_taskId ut = t)"
  by (auto simp: getUserTask_def find_None_iff)

text \<open>
  Claim C9.  When a user task of the requesting user for the task exists, the start
  request is answered with status 400 and "Task already started" and the server is
  unchanged.  Otherwise, when the task identifier is unknown, the answer is status 404
  and the server is unchanged.  Otherwise, with a new identifier, the answer is status
  200 and exactly one user task is added at the end of the user tasks: status
  \<open>in_progress\<close>, progress 0, and as \<open>maxProgress\<close> the length of the task's
  requirements when they are an array, and 1 when they are not.
\<close>

theorem start_task_guarded:
  "(getUserTask (req_userId user) taskId (store srv) \<noteq> None \<longrightarrow>
      post_tasks_start lib user taskId uuid now srv
        = ((400, message_body ''Task already started''), srv)) \<and>
   (getUserTask (req_userId user) taskId (store srv) = None \<and> getTask taskId (store srv) = None \<longrightarrow>
      post_tasks_start lib user taskId uuid now srv
        = ((404, message_body ''Task not found''), srv)) \<and>
   (\<forall>task. getUserTask (req_userId user) taskId (store srv) = None \<and>
        getTask taskId (store srv) = Some task \<and> Map_get (userTasks (store srv)) uuid = None \<longrightarrow>
      fst (post_tasks_start lib user taskId uuid now srv)
        = (200, UserTask_body
                  \<lparr> ut_id = uuid, ut_userId = req_userId user, ut_taskId = taskId,
                    ut_status = ''in_progress'', ut_progress = 0,
                    ut_maxProgress =
                      (case t_requirements task of Arr xs \<Rightarrow> int (length xs) | _ \<Rightarrow> 1),
                    ut_completedAt = None, ut_createdAt = Some now \<rparr>) \<and>
      store (snd (post_tasks_start lib user taskId uuid now srv))
        = (store srv)
            \<lparr> userTasks :=
                userTasks (store srv) @
                [(uuid, \<lparr> ut_id = uuid, ut_userId = req_userId user, ut_taskId = taskId,
                          ut_status = ''in_progress'', ut_progress = 0,
                          ut_maxProgress =
                            (case t_requirements task of Arr xs \<Rightarrow> int (length xs) | _ \<Rightarrow> 1),
                          ut_completedAt = None, ut_createdAt = Some now \<rparr>)] \<rparr>) \<and>
   (getUserTask (req_userId user) taskId (store srv) \<noteq> None \<longleftrightarrow>
      (\<exists>ut \<in> set (Map_values (userTasks (store srv))).
         ut_userId ut = req_userId user \<and> ut_taskId ut = taskId))"
proof -
  have len: "requirements_length v = (case v of Arr xs \<Rightarrow> int (length xs) | _ \<Rightarrow> 1)" for v
    by (cases v) simp_all
  have 1: "getUserTask (req_userId user) taskId (store srv) \<noteq> None \<longrightarrow>
      post_tasks_start lib user taskId uuid now srv
        = ((400, message_body ''Task already started''), srv)"
    by (auto simp: post_tasks_start_def)
  have 2: "getUserTask (req_userId user) taskId (store srv) = None \<and>
      getTask taskId (store srv) = None \<longrightarrow>
      post_tasks_start lib user taskId uuid now srv
        = ((404, message_body ''Task not found''), srv)"
    by (simp add: post_tasks_start_def)
  have 3: "getUserTask (req_userId user) taskId (store srv) = None \<and>
        getTask taskId (store srv) = Some task \<and> Map_get (userTasks (store srv)) uuid = None \<longrightarrow>
      fst (post_tasks_start lib user taskId uuid now srv)
        = (200, UserTask_body
                  \<lparr> ut_id = uuid, ut_userId = req_userId user, ut_taskId = taskId,
                    ut_status = ''in_progress'', ut_progress = 0,
                    ut_maxProgress =
                      (case t_requirements task of Arr xs \<Rightarrow> int (length xs) | _ \<Rightarrow> 1),
                    ut_completedAt = None, ut_createdAt = Some now \<rparr>) \<and>
      store (snd (post_tasks_start lib user taskId uuid now srv))
        = (store srv)
            \<lparr> userTasks :=
                userTasks (store srv) @
                [(uuid, \<lparr> ut_id = uuid, ut_userId = req_userId user, ut_taskId = taskId,
                          ut_status = ''in_progress'', ut_progress = 0,
                          ut_maxProgress =
                            (case t_requirements task of Arr xs \<Rightarrow> int (length xs) | _ \<Rightarrow> 1),
                          ut_completedAt = None, ut_createdAt = Some now \<rparr>)] \<rparr>" for task
    by (simp add: post_tasks_start_def createUserTask_def Let_def broadcast_store len
          Map_set_fresh)
  from 1 2 3 getUserTask_exists [of "req_userId user" taskId "store srv"]
  show ?thesis by blast
qed

theorem start_task_guarded_witness:
  "fst (post_tasks_start example_platform validator_user ''task-1'' ''ut-2'' 5 (initial_server 0))
     = (200, UserTask_body
               \<lparr> ut_id = ''ut-2'', ut_userId = ''user-1'', ut_taskId = ''task-1'',
                 ut_status = ''in_progress'', ut_progress = 0, ut_maxProgress = 3,
                 ut_completedAt = None, ut_createdAt = Some 5 \<rparr>) \<and>
   post_tasks_start example_platform validator_user ''task-1'' ''ut-3'' 6
       (snd (post_tasks_start example_platform validator_user ''task-1'' ''ut-2'' 5
               (initial_server 0)))
     = ((400, message_body ''Task already started''),
        snd (post_tasks_start example_platform validator_user ''task-1'' ''ut-2'' 5
               (initial_server 0))) \<and>
   post_tasks_start example_platform validator_user ''task-9'' ''ut-2'' 5 (initial_server 0)
     = ((404, message_body ''Task not found''), initial_server 0)"
proof -
  let ?srv = "initial_server 0"
  let ?srv1 = "snd (post_tasks_start example_platform validator_user ''task-1'' ''ut-2'' 5 ?srv)"
  note t1 = start_task_guarded [of validator_user "''task-1''" ?srv example_platform "''ut-2''" 5]
  note t2 = start_task_guarded [of validator_user "''task-1''" ?srv1 example_platform "''ut-3''" 6]
  note t3 = start_task_guarded [of validator_user "''task-9''" ?srv example_platform "''ut-2''" 5]
  have h1: "getUserTask (req_userId validator_user) ''task-1'' (store ?srv) = None \<and>
        getTask ''task-1'' (store ?srv) = Some (the (getTask ''task-1'' (store ?srv))) \<and>
        Map_get (userTasks (store ?srv)) ''ut-2'' = None"
    by (simp add: getUserTask_def getTask_def Map_get_def Map_values_def initial_server_def
          initializeData_def validator_user_def)
  have req: "t_requirements (the (getTask ''task-1'' (store ?srv)))
               = Arr [Str ''Connect wallet'', Str ''Deploy contract'', Str ''Verify deployment'']"
    by (simp add: getTask_def Map_get_def initial_server_def initializeData_def)
  from t1 [THEN conjunct2, THEN conjunct2, THEN conjunct1, rule_format, OF h1]
  have 1: "fst (post_tasks_start example_platform validator_user ''task-1'' ''ut-2'' 5 ?srv)
     = (200, UserTask_body
               \<lparr> ut_id = ''ut-2'', ut_userId = ''user-1'', ut_taskId = ''task-1'',
                 ut_status = ''in_progress'', ut_progress = 0, ut_maxProgress = 3,
                 ut_completedAt = None, ut_createdAt = Some 5 \<rparr>)"
    and st: "store ?srv1 = (store ?srv)
            \<lparr> userTasks :=
                userTasks (store ?srv) @
                [(''ut-2'', \<lparr> ut_id = ''ut-2'', ut_userId = ''user-1'', ut_taskId = ''task-1'',
                          ut_status = ''in_progress'', ut_progress = 0, ut_maxProgress = 3,
                          ut_completedAt = None, ut_createdAt = Some 5 \<rparr>)] \<rparr>"
    by (simp_all add: req validator_user_def)
  have h2: "getUserTask (req_userId validator_user) ''task-1'' (store ?srv1) \<noteq> None"
    unfolding st
    by (simp add: getUserTask_def Map_values_def initial_server_def initializeData_def
          validator_user_def)
  have 2: "post_tasks_start example_platform validator_user ''task-1'' ''ut-3'' 6 ?srv1
             = ((400, message_body ''Task already started''), ?srv1)"
    using t2 [THEN conjunct1] h2 by (rule mp)
  have h3: "getUserTask (req_userId validator_user) ''task-9'' (store ?srv) = None \<and>
            getTask ''task-9'' (store ?srv) = None"
    by (simp add: getUserTask_def getTask_def Map_get_def Map_values_def initial_server_def
          initializeData_def validator_user_def)
  have 3: "post_tasks_start example_platform validator_user ''task-9'' ''ut-2'' 5 ?srv
             = ((404, message_body ''Task not found''), ?srv)"
    using t3 [THEN conjunct2, THEN conjunct1] h3 by (rule mp)
  from 1 2 3 show ?thesis by (intro conjI)
qed

subsection \<open>Progress updates\<close>






section \<open>Evaluating numbers\<close>

lemmas num_ev =
  fl_def fl_int_def of_int_num_def aligned_def round_pos_def round_at_def renormalize_def
  ilog2_def ilog10_def ilog10_near_def frac_le_def frac_mul_def frac_div_def frac_pow_def
  round_half_even_def round_half_up_def to_frac_def with_sign_def sub_def gt_def is_digit_def
  digit_val_def digits_val_def digits.simps WhiteSpace_def ws_len_def trimStart.simps
  ExponentPart_def parseFloat_def StrDecimalLiteral_def StrUnsignedDecimalLiteral_def
  StrDecimalDigits_def StrDecimalValue_def candidate_def scaled_def pick_digits_def
  round_trips_def shortest.simps format_digits_def format_shortest_def pad_zeros_def
  insert_point_def compute_bitlen



subsection \<open>Placing a prediction\<close>

lemma spread_User_balance:
  "spread_User u (no_User_updates\<lparr>pu_bdagBalance := Some b\<rparr>) = u\<lparr>u_bdagBalance := b\<rparr>"
  by (cases u) (simp add: spread_User_def no_User_updates_def)

lemma spread_market_statistics:
  "spread_PredictionMarket market (market_statistics ps)
     = market
         \<lparr> m_totalPool := toString (sum_amounts ps),
           m_participantCount := int (length ps),
           m_yesPercentage :=
             (if gt (sum_amounts ps) (of_int_num 0)
              then toFixed 2 (mul (divide_num (sum_amounts (filter (\<lambda>p. p_prediction p) ps))
                                     (sum_amounts ps)) (of_int_num 100))
              else ''50.00''),
           m_noPercentage :=
             (if gt (sum_amounts ps) (of_int_num 0)
              then toFixed 2 (mul (divide_num (sum_amounts (filter (\<lambda>p. \<not> p_prediction p) ps))
                                     (sum_amounts ps)) (of_int_num 100))
              else ''50.00'') \<rparr>"
  by (cases market)
     (simp add: spread_PredictionMarket_def market_statistics_def Let_def
        no_PredictionMarket_updates_def)

lemma update_market_statistics_store:
  "fst (update_market_statistics lib marketId srv) = None \<and>
   store (snd (update_market_statistics lib marketId srv))
     = (case getPredictionMarket marketId (store srv) of
          None \<Rightarrow> store srv
        | Some market \<Rightarrow>
            (store srv)
              \<lparr> predictionMarkets :=
                  Map_set (predictionMarkets (store srv)) marketId
                    (spread_PredictionMarket market
                       (market_statistics (getPredictionsByMarket marketId (store srv)))) \<rparr>)"
  by (simp add: update_market_statistics_def getPredictionMarket_def
        updatePredictionMarket_present broadcast_store split: option.split)

lemma post_predictions_rejected:
  assumes "getUser (req_userId user) (store srv) = Some u"
    and "lt (parseFloat (u_bdagBalance u)) (parseFloat (ip_amount pd))"
  shows "post_predictions lib user (Inr pd) uuid now srv
           = ((400, message_body ''Insufficient BDAG balance''), srv)"
  using assms by (simp add: post_predictions_def Let_def)

lemma post_predictions_accepted:
  assumes "getUser (req_userId user) (store srv) = Some u"
    and "\<not> lt (parseFloat (u_bdagBalance u)) (parseFloat (ip_amount pd))"
  shows "fst (post_predictions lib user (Inr pd) uuid now srv)
           = (200, Prediction_body (fst (createPrediction pd uuid now (store srv)))) \<and>
         store (snd (post_predictions lib user (Inr pd) uuid now srv))
           = store (snd (update_market_statistics lib (ip_marketId pd)
                (srv\<lparr>store :=
                   (store srv)
                     \<lparr> predictions :=
                         Map_set (predictions (store srv)) uuid
                           (fst (createPrediction pd uuid now (store srv))),
                       users :=
                         Map_set (users (store srv)) (req_userId user)
                           (u\<lparr>u_bdagBalance :=
                                 toString (sub (parseFloat (u_bdagBalance u))
                                               (parseFloat (ip_amount pd)))\<rparr>) \<rparr>\<rparr>)))"
proof -
  let ?p = "fst (createPrediction pd uuid now (store srv))"
  let ?st1 = "(store srv)\<lparr>predictions := Map_set (predictions (store srv)) uuid ?p\<rparr>"
  let ?u' = "u\<lparr>u_bdagBalance := toString (sub (parseFloat (u_bdagBalance u))
                                               (parseFloat (ip_amount pd)))\<rparr>"
  have c: "snd (createPrediction pd uuid now (store srv)) = ?st1"
    by (simp add: createPrediction_def Let_def)
  have g: "Map_get (users ?st1) (req_userId user) = Some u"
    using assms(1) by (simp add: getUser_def)
  have up: "updateUser (req_userId user)
              (no_User_updates
                 \<lparr>pu_bdagBalance := Some (toString (sub (parseFloat (u_bdagBalance u))
                                                       (parseFloat (ip_amount pd))))\<rparr>) ?st1
            = (Inr ?u', ?st1\<lparr>users := Map_set (users ?st1) (req_userId user) ?u'\<rparr>)"
    by (simp add: updateUser_present [OF g] spread_User_balance)
  have r: "e = None \<and> store srv2 = store (snd (update_market_statistics lib mid srv'))"
    if "update_market_statistics lib mid srv' = (e, srv2)" for e srv2 mid srv'
    using that update_market_statistics_store [of lib mid srv'] by simp
  show ?thesis
    using assms
    by (auto simp: post_predictions_def Let_def c up broadcast_store split: prod.split option.split
          dest!: r)
qed

lemma hundred_minus_forty:
  "toString (sub (parseFloat ''100'') (parseFloat ''40'')) = ''60''"
  "\<not> lt (parseFloat ''100'') (parseFloat ''40'')"
  by (simp_all add: num_ev)

text \<open>
  Claim C4.  A prediction request of an existing user whose balance, parsed as a number,
  is less than the parsed amount is answered with status 400 and the message
  ``Insufficient BDAG balance'', and leaves the server as it was: no prediction is
  created and no record changes.  Otherwise the answer is 200 with the prediction, the
  prediction is stored under its new id, and the user's record is replaced by one whose
  balance is the string of the old balance minus the amount; with a balance of \<open>100\<close> and
  an amount of \<open>40\<close> the new balance is \<open>60\<close>.
\<close>

theorem prediction_balance_check:
  assumes "getUser (req_userId user) (store srv) = Some u"
  shows "(lt (parseFloat (u_bdagBalance u)) (parseFloat (ip_amount pd)) \<longrightarrow>
            post_predictions lib user (Inr pd) uuid now srv
              = ((400, message_body ''Insufficient BDAG balance''), srv)) \<and>
         (\<not> lt (parseFloat (u_bdagBalance u)) (parseFloat (ip_amount pd)) \<longrightarrow>
            fst (post_predictions lib user (Inr pd) uuid now srv)
              = (200, Prediction_body
                        \<lparr> p_id = uuid, p_userId = ip_userId pd, p_marketId = ip_marketId pd,
                          p_prediction = ip_prediction pd, p_amount = ip_amount pd,
                          p_potentialWin = ip_potentialWin pd, p_status = ''active'',
                          p_createdAt = Some now \<rparr>) \<and>
            predictions (store (snd (post_predictions lib user (Inr pd) uuid now srv)))
              = Map_set (predictions (store srv)) uuid
                  \<lparr> p_id = uuid, p_userId = ip_userId pd, p_marketId = ip_marketId pd,
                    p_prediction = ip_prediction pd, p_amount = ip_amount pd,
                    p_potentialWin = ip_potentialWin pd, p_status = ''active'',
                    p_createdAt = Some now \<rparr> \<and>
            users (store (snd (post_predictions lib user (Inr pd) uuid now srv)))
              = Map_set (users (store srv)) (req_userId user)
                  (u\<lparr>u_bdagBalance := toString (sub (parseFloat (u_bdagBalance u))
                                                     (parseFloat (ip_amount pd)))\<rparr>)) \<and>
         (u_bdagBalance u = ''100'' \<and> ip_amount pd = ''40'' \<longrightarrow>
            users (store (snd (post_predictions lib user (Inr pd) uuid now srv)))
              = Map_set (users (store srv)) (req_userId user) (u\<lparr>u_bdagBalance := ''60''\<rparr>))"
proof -
  have p: "fst (createPrediction pd uuid now (store srv))
             = \<lparr> p_id = uuid, p_userId = ip_userId pd, p_marketId = ip_marketId pd,
                 p_prediction = ip_prediction pd, p_amount = ip_amount pd,
                 p_potentialWin = ip_potentialWin pd, p_status = ''active'',
                 p_createdAt = Some now \<rparr>"
    by (simp add: createPrediction_def Let_def)
  have acc: "\<not> lt (parseFloat (u_bdagBalance u)) (parseFloat (ip_amount pd)) \<Longrightarrow>
            fst (post_predictions lib user (Inr pd) uuid now srv)
              = (200, Prediction_body (fst (createPrediction pd uuid now (store srv)))) \<and>
            predictions (store (snd (post_predictions lib user (Inr pd) uuid now srv)))
              = Map_set (predictions (store srv)) uuid (fst (createPrediction pd uuid now (store srv))) \<and>
            users (store (snd (post_predictions lib user (Inr pd) uuid now srv)))
              = Map_set (users (store srv)) (req_userId user)
                  (u\<lparr>u_bdagBalance := toString (sub (parseFloat (u_bdagBalance u))
                                                     (parseFloat (ip_amount pd)))\<rparr>)"
    using post_predictions_accepted [OF assms, of pd lib uuid now]
    by (simp add: update_market_statistics_store getPredictionMarket_def split: option.split)
  show ?thesis
    using post_predictions_rejected [OF assms, of pd lib uuid now] acc hundred_minus_forty
    by (auto simp: p)
qed

lemma hundred_and_forty:
  "lt (parseFloat ''100'') (parseFloat ''140'')"
  by (simp add: num_ev)

theorem prediction_balance_check_witness:
  "post_predictions example_platform (bettor ''a'') (Inr (bet ''a'' True ''140'')) ''p-1'' 7
     betting_server
     = ((400, message_body ''Insufficient BDAG balance''), betting_server) \<and>
   fst (fst (post_predictions example_platform (bettor ''a'') (Inr (bet ''a'' True ''40'')) ''p-1'' 7
     betting_server)) = 200 \<and>
   Map_keys (predictions (store (snd
     (post_predictions example_platform (bettor ''a'') (Inr (bet ''a'' True ''40'')) ''p-1'' 7
        betting_server)))) = [''p-1''] \<and>
   map (\<lambda>u. (u_id u, u_bdagBalance u)) (Map_values (users (store (snd
     (post_predictions example_platform (bettor ''a'') (Inr (bet ''a'' True ''40'')) ''p-1'' 7
        betting_server)))))
     = [(''a'', ''60''), (''b'', ''100''), (''c'', ''100'')]"
proof -
  let ?u = "example_user ''a'' 5"
  have g: "getUser (req_userId (bettor ''a'')) (store betting_server) = Some ?u"
    by (simp add: getUser_def Map_get_def bettor_def betting_server_def three_users_def)
  have b: "u_bdagBalance ?u = ''100''"
    by (simp add: example_user_def)
  have a: "ip_amount (bet ''a'' True ''140'') = ''140''" "ip_amount (bet ''a'' True ''40'') = ''40''"
    by (simp_all add: bet_def)
  have st: "predictions (store betting_server) = []"
    "users (store betting_server)
       = [(''a'', example_user ''a'' 5), (''b'', example_user ''b'' 7), (''c'', example_user ''c'' 5)]"
    by (simp_all add: betting_server_def three_users_def initializeData_def)
  have r: "req_userId (bettor ''a'') = ''a''"
    by (simp add: bettor_def)
  note rejected =
    prediction_balance_check [OF g, where pd = "bet ''a'' True ''140''" and lib = example_platform
      and uuid = "''p-1''" and now = 7, THEN conjunct1, rule_format]
  note accepted =
    prediction_balance_check [OF g, where pd = "bet ''a'' True ''40''" and lib = example_platform
      and uuid = "''p-1''" and now = 7, THEN conjunct2, THEN conjunct1, rule_format]
  note sixty =
    prediction_balance_check [OF g, where pd = "bet ''a'' True ''40''" and lib = example_platform
      and uuid = "''p-1''" and now = 7, THEN conjunct2, THEN conjunct2, rule_format]
  have 1: "post_predictions example_platform (bettor ''a'') (Inr (bet ''a'' True ''140'')) ''p-1'' 7
             betting_server
           = ((400, message_body ''Insufficient BDAG balance''), betting_server)"
    by (rule rejected) (simp add: a b hundred_and_forty)
  have n: "\<not> lt (parseFloat (u_bdagBalance ?u)) (parseFloat (ip_amount (bet ''a'' True ''40'')))"
    by (simp add: a b hundred_minus_forty)
  have 2: "fst (fst (post_predictions example_platform (bettor ''a'') (Inr (bet ''a'' True ''40''))
             ''p-1'' 7 betting_server)) = 200"
    using accepted [OF n] by simp
  have 3: "Map_keys (predictions (store (snd
             (post_predictions example_platform (bettor ''a'') (Inr (bet ''a'' True ''40'')) ''p-1'' 7
                betting_server)))) = [''p-1'']"
    using accepted [OF n] by (simp add: st Map_keys_def Map_set_def)
  have 4: "map (\<lambda>u. (u_id u, u_bdagBalance u)) (Map_values (users (store (snd
             (post_predictions example_platform (bettor ''a'') (Inr (bet ''a'' True ''40'')) ''p-1'' 7
                betting_server)))))
           = [(''a'', ''60''), (''b'', ''100''), (''c'', ''100'')]"
    using sixty by (simp add: a b r st Map_values_def Map_set_def example_user_def)
  show ?thesis
    using 1 2 3 4 by (intro conjI)
qed

end
